theory Spec2Isabelle
  imports Main
begin

section \<open>RentFlowCore: data model\<close>

text \<open>
  The contract \<^verbatim>\<open>RentFlowCore\<close> (Solidity 0.8.20) is embedded as state-passing
  functions. An \<^verbatim>\<open>address\<close> and a \<^verbatim>\<open>uint256\<close> are natural numbers;
  \<^verbatim>\<open>address(0)\<close> is \<open>0\<close>. Solidity 0.8 arithmetic is checked: where an addition
  or subtraction of the source can leave the range \<open>0 .. 2^256 - 1\<close> the model has an
  explicit branch that fails with \<open>Panic\<close>. A mapping is a total function, so reading a
  key that was never written gives the all-zero record, as on chain.
\<close>

type_synonym address = nat
type_synonym uint256 = nat

definition uint256_max :: nat where
  "uint256_max = 2 ^ 256 - 1"

text \<open>The Solidity time unit \<^verbatim>\<open>1 days\<close>, in seconds.\<close>

definition days :: nat where
  "days = 86400"

datatype LeaseStatus = Active | Paused | Terminated | Completed

datatype MaintenanceStatus = Pending | Approved | InProgress | Completed | Rejected

record Property =
  owner :: address
  monthlyRent :: uint256
  securityDeposit :: uint256
  isActive :: bool
  createdAt :: uint256

record Lease =
  propertyId :: uint256
  tenant :: address
  startDate :: uint256
  endDate :: uint256
  rentDueDay :: uint256
  lastPaymentDate :: uint256
  totalPaid :: uint256
  status :: LeaseStatus
  securityDepositHeld :: uint256

record MaintenanceRequest =
  propertyId :: uint256
  requestedBy :: address
  description :: string
  estimatedCost :: uint256
  approvedAmount :: uint256
  contractor :: address
  status :: MaintenanceStatus
  createdAt :: uint256

text \<open>The value a mapping returns for a key that was never written.\<close>

definition default_Property :: Property where
  "default_Property =
     \<lparr>owner = 0, monthlyRent = 0, securityDeposit = 0, isActive = False,
      Property.createdAt = 0\<rparr>"

definition default_Lease :: Lease where
  "default_Lease =
     \<lparr>Lease.propertyId = 0, tenant = 0, startDate = 0, endDate = 0, rentDueDay = 0,
      lastPaymentDate = 0, totalPaid = 0, Lease.status = Active, securityDepositHeld = 0\<rparr>"

definition default_MaintenanceRequest :: MaintenanceRequest where
  "default_MaintenanceRequest =
     \<lparr>MaintenanceRequest.propertyId = 0, requestedBy = 0, description = [],
      estimatedCost = 0, approvedAmount = 0, contractor = 0,
      MaintenanceRequest.status = Pending, MaintenanceRequest.createdAt = 0\<rparr>"

datatype event =
    PropertyRegistered uint256 address uint256
  | LeaseCreated uint256 uint256 address
  | RentPaid uint256 uint256 uint256
  | RentOverdue uint256 uint256
  | MaintenanceRequested uint256 uint256 uint256
  | MaintenanceApproved uint256 uint256 address
  | MaintenancePaid uint256 uint256 address
  | SecurityDepositReturned uint256 address uint256
  | AIAgentAuthorized address bool
  | MaintenanceFundAdded uint256 uint256

text \<open>
  A failed call: a \<^verbatim>\<open>require\<close> with its reason string, one of the custom errors of
  the inherited \<^verbatim>\<open>Pausable\<close> and \<^verbatim>\<open>Ownable\<close>, an arithmetic panic, or an error that the
  token ledger threw during a call the contract made to it, which passes through the
  contract unchanged.
\<close>

datatype error =
    Revert string
  | EnforcedPause
  | ExpectedPause
  | OwnableUnauthorizedAccount address
  | OwnableInvalidOwner address
  | Panic
  | LedgerError

subsection \<open>The token ledger\<close>

text \<open>
  Modelled from the spec: the token ledger behind \<^verbatim>\<open>IERC20 USDC\<close>. The contract only
  holds its address; the tests deploy \<^verbatim>\<open>MockUSDC\<close>, which extends the ERC20 of the
  imported OpenZeppelin library, whose code is not part of the sources. The spec gives the
  interface \<^verbatim>\<open>transfer(to, amount)\<close> and \<^verbatim>\<open>transferFrom(from, to, amount)\<close>, moving
  value between accounts and failing on insufficient balance or allowance. The interface
  lets a ledger fail in two ways, and the contract sees them differently: a ledger that
  returns \<^verbatim>\<open>false\<close> makes the \<^verbatim>\<open>require\<close> around the call fail with the contract's
  reason string; a ledger that throws (as the ERC20 behind \<^verbatim>\<open>MockUSDC\<close> does) aborts
  the call with the ledger's own error. \<open>throwsOnFailure\<close> records which of the two the
  ledger does. \<open>None\<close> is a failed ledger operation in either case. Balances are
  unbounded here: a ledger keeps the sum of all balances at its total supply, so a
  credit does not overflow.
\<close>

record token =
  balanceOf :: "address \<Rightarrow> uint256"
  allowance :: "address \<Rightarrow> address \<Rightarrow> uint256"
  throwsOnFailure :: bool

text \<open>
  What the contract reverts with when a ledger call inside
  \<^verbatim>\<open>require(USDC.transfer...(...), reason)\<close> fails: the ledger's error if the ledger
  throws, the reason of the \<^verbatim>\<open>require\<close> if it returns \<^verbatim>\<open>false\<close>.
\<close>

definition ledger_failed :: "token \<Rightarrow> string \<Rightarrow> error" where
  "ledger_failed tk reason = (if throwsOnFailure tk then LedgerError else Revert reason)"

definition move :: "address \<Rightarrow> address \<Rightarrow> uint256 \<Rightarrow> (address \<Rightarrow> uint256) \<Rightarrow> (address \<Rightarrow> uint256)" where
  "move from to amount b =
     (let b1 = b(from := b from - amount) in b1(to := b1 to + amount))"

definition token_transfer :: "address \<Rightarrow> address \<Rightarrow> uint256 \<Rightarrow> token \<Rightarrow> token option" where
  "token_transfer caller to amount tk =
     (if balanceOf tk caller < amount then None
      else Some (tk\<lparr>balanceOf := move caller to amount (balanceOf tk)\<rparr>))"

definition token_transferFrom ::
  "address \<Rightarrow> address \<Rightarrow> address \<Rightarrow> uint256 \<Rightarrow> token \<Rightarrow> token option" where
  "token_transferFrom spender from to amount tk =
     (if allowance tk from spender < amount then None
      else if balanceOf tk from < amount then None
      else Some (tk\<lparr>balanceOf := move from to amount (balanceOf tk),
                     allowance := (allowance tk)
                       (from := (allowance tk from)(spender := allowance tk from spender - amount))\<rparr>))"

definition token_approve :: "address \<Rightarrow> address \<Rightarrow> uint256 \<Rightarrow> token \<Rightarrow> token" where
  "token_approve caller spender amount tk =
     tk\<lparr>allowance := (allowance tk)(caller := (allowance tk caller)(spender := amount))\<rparr>"

text \<open>\<^verbatim>\<open>MockUSDC.mint\<close> and \<^verbatim>\<open>MockUSDC.burn\<close>: anyone mints to anyone, a holder burns
  its own tokens.\<close>

definition token_mint :: "address \<Rightarrow> uint256 \<Rightarrow> token \<Rightarrow> token" where
  "token_mint to amount tk = tk\<lparr>balanceOf := (balanceOf tk)(to := balanceOf tk to + amount)\<rparr>"

definition token_burn :: "address \<Rightarrow> uint256 \<Rightarrow> token \<Rightarrow> token option" where
  "token_burn caller amount tk =
     (if balanceOf tk caller < amount then None
      else Some (tk\<lparr>balanceOf := (balanceOf tk)(caller := balanceOf tk caller - amount)\<rparr>))"

subsection \<open>Contract state and call environment\<close>

text \<open>
  The storage of the contract, together with what a transaction can change besides it:
  the ledger of the token at address \<^verbatim>\<open>USDC\<close> and the log of emitted events. A
  reverted call leaves all of it as it was. \<open>ownable_owner\<close> and \<open>paused\<close> are the
  storage of the inherited \<^verbatim>\<open>Ownable\<close> and \<^verbatim>\<open>Pausable\<close>; \<open>thisAddress\<close> is
  \<^verbatim>\<open>address(this)\<close>.
\<close>

record RentFlowCore =
  properties :: "uint256 \<Rightarrow> Property"
  leases :: "uint256 \<Rightarrow> Lease"
  maintenanceRequests :: "uint256 \<Rightarrow> MaintenanceRequest"
  ownerProperties :: "address \<Rightarrow> uint256 list"
  tenantLeases :: "address \<Rightarrow> uint256 list"
  maintenanceFunds :: "uint256 \<Rightarrow> uint256"
  authorizedAIAgents :: "address \<Rightarrow> bool"
  propertyCounter :: uint256
  leaseCounter :: uint256
  maintenanceCounter :: uint256
  ownable_owner :: address
  paused :: bool
  thisAddress :: address
  USDC :: token
  logs :: "event list"

text \<open>\<^verbatim>\<open>msg.sender\<close> and \<^verbatim>\<open>block.timestamp\<close> of a call.\<close>

record env =
  sender :: address
  timestamp :: uint256

section \<open>Operations\<close>

text \<open>
  Every external function takes the call environment, its arguments and the state, and
  returns \<open>Inl\<close> of the error when it reverts, \<open>Inr\<close> of the new state (with the
  returned id, where the function returns one) otherwise. Modifiers are checked in the
  order they are listed on the function, then the body's \<^verbatim>\<open>require\<close>s in order.
  \<^verbatim>\<open>nonReentrant\<close> is not modelled: the ledger above never calls back, so the guard
  is never entered twice.
\<close>

subsection \<open>Property management\<close>

definition registerProperty ::
  "env \<Rightarrow> uint256 \<Rightarrow> uint256 \<Rightarrow> RentFlowCore \<Rightarrow> error + (uint256 \<times> RentFlowCore)" where
  "registerProperty e monthlyRent' securityDeposit' s =
     (if paused s then Inl EnforcedPause
      else if \<not> monthlyRent' > 0 then Inl (Revert ''Rent must be positive'')
      else if \<not> securityDeposit' \<ge> monthlyRent' then
        Inl (Revert ''Deposit must be >= monthly rent'')
      else if propertyCounter s + 1 > uint256_max then Inl Panic
      else
        let propertyId' = propertyCounter s in
        Inr (propertyId',
          s\<lparr>propertyCounter := propertyCounter s + 1,
            properties := (properties s)(propertyId' :=
              \<lparr>owner = sender e, monthlyRent = monthlyRent',
               securityDeposit = securityDeposit', isActive = True,
               Property.createdAt = timestamp e\<rparr>),
            ownerProperties := (ownerProperties s)
              (sender e := ownerProperties s (sender e) @ [propertyId']),
            logs := logs s @ [PropertyRegistered propertyId' (sender e) monthlyRent']\<rparr>))"

definition deactivateProperty :: "env \<Rightarrow> uint256 \<Rightarrow> RentFlowCore \<Rightarrow> error + RentFlowCore" where
  "deactivateProperty e propertyId' s =
     (if owner (properties s propertyId') \<noteq> sender e then Inl (Revert ''Not property owner'')
      else Inr (s\<lparr>properties := (properties s)
                   (propertyId' := (properties s propertyId')\<lparr>isActive := False\<rparr>)\<rparr>))"

subsection \<open>Lease management\<close>

definition createLease ::
  "env \<Rightarrow> uint256 \<Rightarrow> address \<Rightarrow> uint256 \<Rightarrow> uint256 \<Rightarrow> uint256 \<Rightarrow> RentFlowCore
     \<Rightarrow> error + (uint256 \<times> RentFlowCore)" where
  "createLease e propertyId' tenant' startDate' durationMonths rentDueDay' s =
     (if owner (properties s propertyId') \<noteq> sender e then Inl (Revert ''Not property owner'')
      else if \<not> isActive (properties s propertyId') then Inl (Revert ''Property not active'')
      else if \<not> tenant' \<noteq> 0 then Inl (Revert ''Invalid tenant address'')
      else if \<not> startDate' \<ge> timestamp e then Inl (Revert ''Start date must be in future'')
      else if \<not> (durationMonths > 0 \<and> durationMonths \<le> 36) then
        Inl (Revert ''Duration must be 1-36 months'')
      else if \<not> (rentDueDay' \<ge> 1 \<and> rentDueDay' \<le> 28) then
        Inl (Revert ''Rent due day must be 1-28'')
      else if leaseCounter s + 1 > uint256_max then Inl Panic
      else
        let leaseId = leaseCounter s;
            prop = properties s propertyId'
        in
        case token_transferFrom (thisAddress s) tenant' (thisAddress s)
               (securityDeposit prop) (USDC s) of
          None \<Rightarrow> Inl (ledger_failed (USDC s) ''Security deposit transfer failed'')
        | Some tk \<Rightarrow>
            if startDate' + durationMonths * (30 * days) > uint256_max then Inl Panic
            else
              let endDate' = startDate' + durationMonths * (30 * days) in
              Inr (leaseId,
                s\<lparr>leaseCounter := leaseCounter s + 1,
                  USDC := tk,
                  leases := (leases s)(leaseId :=
                    \<lparr>Lease.propertyId = propertyId', tenant = tenant',
                     startDate = startDate', endDate = endDate',
                     rentDueDay = rentDueDay', lastPaymentDate = 0, totalPaid = 0,
                     Lease.status = Active,
                     securityDepositHeld = securityDeposit prop\<rparr>),
                  tenantLeases := (tenantLeases s)
                    (tenant' := tenantLeases s tenant' @ [leaseId]),
                  logs := logs s @ [LeaseCreated leaseId propertyId' tenant']\<rparr>))"

definition payRent :: "env \<Rightarrow> uint256 \<Rightarrow> RentFlowCore \<Rightarrow> error + RentFlowCore" where
  "payRent e leaseId s =
     (if paused s then Inl EnforcedPause
      else
        let lease = leases s leaseId in
        if \<not> Lease.status lease = Active then Inl (Revert ''Lease not active'')
        else if \<not> sender e = tenant lease then Inl (Revert ''Only tenant can pay'')
        else if \<not> timestamp e \<ge> startDate lease then Inl (Revert ''Lease hasn't started'')
        else if \<not> timestamp e \<le> endDate lease then Inl (Revert ''Lease has ended'')
        else
          let prop = properties s (Lease.propertyId lease);
              rentAmount = monthlyRent prop
          in
          case token_transferFrom (thisAddress s) (sender e) (owner prop) rentAmount (USDC s) of
            None \<Rightarrow> Inl (ledger_failed (USDC s) ''Rent payment failed'')
          | Some tk \<Rightarrow>
              if totalPaid lease + rentAmount > uint256_max then Inl Panic
              else
                Inr (s\<lparr>USDC := tk,
                       leases := (leases s)(leaseId :=
                         lease\<lparr>lastPaymentDate := timestamp e,
                               totalPaid := totalPaid lease + rentAmount\<rparr>),
                       logs := logs s @ [RentPaid leaseId rentAmount (timestamp e)]\<rparr>))"

text \<open>
  The events \<^verbatim>\<open>checkRentOverdue\<close> emits for a lease at a time. \<^verbatim>\<open>&&\<close> short-circuits:
  \<^verbatim>\<open>lease.startDate + 5 days\<close> is only computed when the lease was never paid;
  the subtraction of the second branch underflows when the last payment lies in the
  future.
\<close>

definition overdueEvents :: "uint256 \<Rightarrow> uint256 \<Rightarrow> Lease \<Rightarrow> error + event list" where
  "overdueEvents now leaseId lease =
     (if lastPaymentDate lease = 0 \<and> startDate lease + 5 * days > uint256_max then Inl Panic
      else if lastPaymentDate lease = 0 \<and> now > startDate lease + 5 * days then
        Inr [RentOverdue leaseId ((now - startDate lease) div (1 * days))]
      else if lastPaymentDate lease > 0 then
        (if now < lastPaymentDate lease then Inl Panic
         else
           let daysSincePayment = (now - lastPaymentDate lease) div (1 * days) in
           if daysSincePayment > 35 then Inr [RentOverdue leaseId (daysSincePayment - 30)]
           else Inr [])
      else Inr [])"

definition checkRentOverdue :: "env \<Rightarrow> uint256 \<Rightarrow> RentFlowCore \<Rightarrow> error + RentFlowCore" where
  "checkRentOverdue e leaseId s =
     (if \<not> authorizedAIAgents s (sender e) then Inl (Revert ''Not authorized AI agent'')
      else
        let lease = leases s leaseId in
        if \<not> Lease.status lease = Active then Inl (Revert ''Lease not active'')
        else
          case overdueEvents (timestamp e) leaseId lease of
            Inl err \<Rightarrow> Inl err
          | Inr evs \<Rightarrow> Inr (s\<lparr>logs := logs s @ evs\<rparr>))"

subsection \<open>Maintenance management\<close>

text \<open>The loop of \<^verbatim>\<open>_isTenantOfProperty\<close> over the caller's lease ids.\<close>

fun isTenantOfProperty_loop :: "(uint256 \<Rightarrow> Lease) \<Rightarrow> uint256 \<Rightarrow> uint256 list \<Rightarrow> bool" where
  "isTenantOfProperty_loop ls propertyId' [] = False"
| "isTenantOfProperty_loop ls propertyId' (i # userLeases) =
     (if Lease.propertyId (ls i) = propertyId' \<and> Lease.status (ls i) = Active then True
      else isTenantOfProperty_loop ls propertyId' userLeases)"

definition isTenantOfProperty :: "RentFlowCore \<Rightarrow> address \<Rightarrow> uint256 \<Rightarrow> bool" where
  "isTenantOfProperty s user propertyId' =
     isTenantOfProperty_loop (leases s) propertyId' (tenantLeases s user)"

definition requestMaintenance ::
  "env \<Rightarrow> uint256 \<Rightarrow> string \<Rightarrow> uint256 \<Rightarrow> RentFlowCore \<Rightarrow> error + (uint256 \<times> RentFlowCore)" where
  "requestMaintenance e propertyId' description' estimatedCost' s =
     (if \<not> isActive (properties s propertyId') then Inl (Revert ''Property not active'')
      else if \<not> (owner (properties s propertyId') = sender e
                 \<or> isTenantOfProperty s (sender e) propertyId') then
        Inl (Revert ''Not authorized for this property'')
      else if \<not> length description' > 0 then Inl (Revert ''Description required'')
      else if \<not> estimatedCost' > 0 then Inl (Revert ''Estimated cost must be positive'')
      else if maintenanceCounter s + 1 > uint256_max then Inl Panic
      else
        let requestId = maintenanceCounter s in
        Inr (requestId,
          s\<lparr>maintenanceCounter := maintenanceCounter s + 1,
            maintenanceRequests := (maintenanceRequests s)(requestId :=
              \<lparr>MaintenanceRequest.propertyId = propertyId', requestedBy = sender e,
               description = description', estimatedCost = estimatedCost',
               approvedAmount = 0, contractor = 0,
               MaintenanceRequest.status = Pending,
               MaintenanceRequest.createdAt = timestamp e\<rparr>),
            logs := logs s @ [MaintenanceRequested requestId propertyId' estimatedCost']\<rparr>))"

definition autoApprovalLimit :: uint256 where
  "autoApprovalLimit = 500 * 10 ^ 6"

definition approveMaintenance ::
  "env \<Rightarrow> uint256 \<Rightarrow> uint256 \<Rightarrow> address \<Rightarrow> RentFlowCore \<Rightarrow> error + RentFlowCore" where
  "approveMaintenance e requestId approvedAmount' contractor' s =
     (if \<not> authorizedAIAgents s (sender e) then Inl (Revert ''Not authorized AI agent'')
      else
        let request = maintenanceRequests s requestId in
        if \<not> MaintenanceRequest.status request = Pending then
          Inl (Revert ''Request not pending'')
        else if \<not> approvedAmount' > 0 then Inl (Revert ''Approved amount must be positive'')
        else if \<not> contractor' \<noteq> 0 then Inl (Revert ''Invalid contractor address'')
        else if \<not> approvedAmount' \<le> autoApprovalLimit then
          Inl (Revert ''Exceeds AI approval limit'')
        else
          Inr (s\<lparr>maintenanceRequests := (maintenanceRequests s)(requestId :=
                   request\<lparr>approvedAmount := approvedAmount', contractor := contractor',
                           MaintenanceRequest.status := Approved\<rparr>),
                 logs := logs s @ [MaintenanceApproved requestId approvedAmount' contractor']\<rparr>))"

definition fundMaintenance :: "env \<Rightarrow> uint256 \<Rightarrow> uint256 \<Rightarrow> RentFlowCore \<Rightarrow> error + RentFlowCore" where
  "fundMaintenance e propertyId' amount s =
     (if owner (properties s propertyId') \<noteq> sender e then Inl (Revert ''Not property owner'')
      else if \<not> amount > 0 then Inl (Revert ''Amount must be positive'')
      else
        case token_transferFrom (thisAddress s) (sender e) (thisAddress s) amount (USDC s) of
          None \<Rightarrow> Inl (ledger_failed (USDC s) ''Funding transfer failed'')
        | Some tk \<Rightarrow>
            if maintenanceFunds s propertyId' + amount > uint256_max then Inl Panic
            else
              Inr (s\<lparr>USDC := tk,
                     maintenanceFunds := (maintenanceFunds s)
                       (propertyId' := maintenanceFunds s propertyId' + amount),
                     logs := logs s @ [MaintenanceFundAdded propertyId' amount]\<rparr>))"

definition payMaintenanceContractor :: "env \<Rightarrow> uint256 \<Rightarrow> RentFlowCore \<Rightarrow> error + RentFlowCore" where
  "payMaintenanceContractor e requestId s =
     (let request = maintenanceRequests s requestId in
      if \<not> MaintenanceRequest.status request = Approved then Inl (Revert ''Not approved'')
      else
        let propertyId' = MaintenanceRequest.propertyId request in
        if \<not> (sender e = owner (properties s propertyId') \<or> authorizedAIAgents s (sender e))
        then Inl (Revert ''Not authorized'')
        else
          let amount = approvedAmount request in
          if \<not> maintenanceFunds s propertyId' \<ge> amount then
            Inl (Revert ''Insufficient maintenance funds'')
          else
            case token_transfer (thisAddress s) (contractor request) amount (USDC s) of
              None \<Rightarrow> Inl (ledger_failed (USDC s) ''Contractor payment failed'')
            | Some tk \<Rightarrow>
                Inr (s\<lparr>maintenanceFunds := (maintenanceFunds s)
                         (propertyId' := maintenanceFunds s propertyId' - amount),
                       maintenanceRequests := (maintenanceRequests s)(requestId :=
                         request\<lparr>MaintenanceRequest.status := MaintenanceStatus.Completed\<rparr>),
                       USDC := tk,
                       logs := logs s @ [MaintenancePaid requestId amount (contractor request)]\<rparr>))"

subsection \<open>Security deposit management\<close>

definition returnSecurityDeposit ::
  "env \<Rightarrow> uint256 \<Rightarrow> uint256 \<Rightarrow> RentFlowCore \<Rightarrow> error + RentFlowCore" where
  "returnSecurityDeposit e leaseId deductionAmount s =
     (let lease = leases s leaseId;
          propertyOwner = owner (properties s (Lease.propertyId lease))
      in
      if \<not> (sender e = propertyOwner \<or> authorizedAIAgents s (sender e)) then
        Inl (Revert ''Not authorized'')
      else if \<not> (Lease.status lease = LeaseStatus.Completed \<or> timestamp e > endDate lease) then
        Inl (Revert ''Lease not completed'')
      else if \<not> deductionAmount \<le> securityDepositHeld lease then
        Inl (Revert ''Deduction exceeds deposit'')
      else
        let returnAmount = securityDepositHeld lease - deductionAmount in
        case (if returnAmount > 0
              then token_transfer (thisAddress s) (tenant lease) returnAmount (USDC s)
              else Some (USDC s)) of
          None \<Rightarrow> Inl (ledger_failed (USDC s) ''Deposit return failed'')
        | Some tk1 \<Rightarrow>
            (case (if deductionAmount > 0
                   then token_transfer (thisAddress s) propertyOwner deductionAmount tk1
                   else Some tk1) of
               None \<Rightarrow> Inl (ledger_failed tk1 ''Deduction transfer failed'')
             | Some tk2 \<Rightarrow>
                 Inr (s\<lparr>leases := (leases s)(leaseId :=
                          lease\<lparr>securityDepositHeld := 0,
                                Lease.status := LeaseStatus.Completed\<rparr>),
                        USDC := tk2,
                        logs := logs s @
                          [SecurityDepositReturned leaseId (tenant lease) returnAmount]\<rparr>)))"

subsection \<open>Agent management and emergency functions\<close>

text \<open>
  Modelled from the spec: \<^verbatim>\<open>onlyOwner\<close>, \<^verbatim>\<open>_pause\<close>, \<^verbatim>\<open>_unpause\<close>,
  \<^verbatim>\<open>transferOwnership\<close> and \<^verbatim>\<open>renounceOwnership\<close> of the imported \<^verbatim>\<open>Ownable\<close> and
  \<^verbatim>\<open>Pausable\<close>, whose code is not part of the sources. The spec gives a single global
  owner capability, transferable, initially the deployer, that gates agent authorization
  and the pause switch; the tests name the custom errors. The events of the two imported
  contracts are not logged.
\<close>

definition setAIAgent :: "env \<Rightarrow> address \<Rightarrow> bool \<Rightarrow> RentFlowCore \<Rightarrow> error + RentFlowCore" where
  "setAIAgent e agent authorized s =
     (if ownable_owner s \<noteq> sender e then Inl (OwnableUnauthorizedAccount (sender e))
      else if \<not> agent \<noteq> 0 then Inl (Revert ''Invalid agent address'')
      else Inr (s\<lparr>authorizedAIAgents := (authorizedAIAgents s)(agent := authorized),
                  logs := logs s @ [AIAgentAuthorized agent authorized]\<rparr>))"

definition pause :: "env \<Rightarrow> RentFlowCore \<Rightarrow> error + RentFlowCore" where
  "pause e s =
     (if ownable_owner s \<noteq> sender e then Inl (OwnableUnauthorizedAccount (sender e))
      else if paused s then Inl EnforcedPause
      else Inr (s\<lparr>paused := True\<rparr>))"

definition unpause :: "env \<Rightarrow> RentFlowCore \<Rightarrow> error + RentFlowCore" where
  "unpause e s =
     (if ownable_owner s \<noteq> sender e then Inl (OwnableUnauthorizedAccount (sender e))
      else if \<not> paused s then Inl ExpectedPause
      else Inr (s\<lparr>paused := False\<rparr>))"

definition transferOwnership :: "env \<Rightarrow> address \<Rightarrow> RentFlowCore \<Rightarrow> error + RentFlowCore" where
  "transferOwnership e newOwner s =
     (if ownable_owner s \<noteq> sender e then Inl (OwnableUnauthorizedAccount (sender e))
      else if newOwner = 0 then Inl (OwnableInvalidOwner 0)
      else Inr (s\<lparr>ownable_owner := newOwner\<rparr>))"

definition renounceOwnership :: "env \<Rightarrow> RentFlowCore \<Rightarrow> error + RentFlowCore" where
  "renounceOwnership e s =
     (if ownable_owner s \<noteq> sender e then Inl (OwnableUnauthorizedAccount (sender e))
      else Inr (s\<lparr>ownable_owner := 0\<rparr>))"

subsection \<open>View functions\<close>

definition getOwnerProperties :: "RentFlowCore \<Rightarrow> address \<Rightarrow> uint256 list" where
  "getOwnerProperties s a = ownerProperties s a"

definition getTenantLeases :: "RentFlowCore \<Rightarrow> address \<Rightarrow> uint256 list" where
  "getTenantLeases s a = tenantLeases s a"

definition getMaintenanceFundBalance :: "RentFlowCore \<Rightarrow> uint256 \<Rightarrow> uint256" where
  "getMaintenanceFundBalance s propertyId' = maintenanceFunds s propertyId'"

section \<open>Transactions and reachable states\<close>

text \<open>
  The external calls an account can make: the functions of the contract (its own and the
  inherited ones) and the calls other accounts make to the token ledger.
\<close>

datatype call =
    RegisterProperty uint256 uint256
  | DeactivateProperty uint256
  | CreateLease uint256 address uint256 uint256 uint256
  | PayRent uint256
  | CheckRentOverdue uint256
  | RequestMaintenance uint256 string uint256
  | ApproveMaintenance uint256 uint256 address
  | FundMaintenance uint256 uint256
  | PayMaintenanceContractor uint256
  | ReturnSecurityDeposit uint256 uint256
  | SetAIAgent address bool
  | Pause
  | Unpause
  | TransferOwnership address
  | RenounceOwnership
  | TokenApprove address uint256
  | TokenTransfer address uint256
  | TokenTransferFrom address address uint256
  | TokenMint address uint256
  | TokenBurn uint256

text \<open>
  A call an account makes to the ledger itself: a failed operation aborts the call when
  the ledger throws, and otherwise returns \<^verbatim>\<open>false\<close> and changes nothing.
\<close>

definition ledger_call :: "RentFlowCore \<Rightarrow> token option \<Rightarrow> error + RentFlowCore" where
  "ledger_call s r =
     (case r of
        None \<Rightarrow> if throwsOnFailure (USDC s) then Inl LedgerError else Inr s
      | Some tk \<Rightarrow> Inr (s\<lparr>USDC := tk\<rparr>))"

fun exec :: "env \<Rightarrow> call \<Rightarrow> RentFlowCore \<Rightarrow> error + RentFlowCore" where
  "exec e (RegisterProperty r d) s = map_sum id snd (registerProperty e r d s)"
| "exec e (DeactivateProperty p) s = deactivateProperty e p s"
| "exec e (CreateLease p t sd dm rd) s = map_sum id snd (createLease e p t sd dm rd s)"
| "exec e (PayRent l) s = payRent e l s"
| "exec e (CheckRentOverdue l) s = checkRentOverdue e l s"
| "exec e (RequestMaintenance p d c) s = map_sum id snd (requestMaintenance e p d c s)"
| "exec e (ApproveMaintenance r a c) s = approveMaintenance e r a c s"
| "exec e (FundMaintenance p a) s = fundMaintenance e p a s"
| "exec e (PayMaintenanceContractor r) s = payMaintenanceContractor e r s"
| "exec e (ReturnSecurityDeposit l d) s = returnSecurityDeposit e l d s"
| "exec e (SetAIAgent a b) s = setAIAgent e a b s"
| "exec e Pause s = pause e s"
| "exec e Unpause s = unpause e s"
| "exec e (TransferOwnership a) s = transferOwnership e a s"
| "exec e RenounceOwnership s = renounceOwnership e s"
| "exec e (TokenApprove sp a) s = ledger_call s (Some (token_approve (sender e) sp a (USDC s)))"
| "exec e (TokenTransfer to a) s = ledger_call s (token_transfer (sender e) to a (USDC s))"
| "exec e (TokenTransferFrom from to a) s =
     ledger_call s (token_transferFrom (sender e) from to a (USDC s))"
| "exec e (TokenMint to a) s = ledger_call s (Some (token_mint to a (USDC s)))"
| "exec e (TokenBurn a) s = ledger_call s (token_burn (sender e) a (USDC s))"

text \<open>A transaction is atomic: a call that reverts leaves the state as it was.\<close>

definition step :: "env \<Rightarrow> call \<Rightarrow> RentFlowCore \<Rightarrow> RentFlowCore" where
  "step e c s = (case exec e c s of Inl err \<Rightarrow> s | Inr s' \<Rightarrow> s')"

fun run :: "(env \<times> call) list \<Rightarrow> RentFlowCore \<Rightarrow> RentFlowCore" where
  "run [] s = s"
| "run ((e, c) # cs) s = run cs (step e c s)"

text \<open>
  The state after the constructor, run by \<open>deployer\<close> for a contract at address \<open>this\<close>,
  with the ledger as it is at that moment: empty mappings, zero counters, not paused, the
  deployer as owner.
\<close>

definition constructor :: "address \<Rightarrow> address \<Rightarrow> token \<Rightarrow> RentFlowCore" where
  "constructor deployer this tk =
     \<lparr>properties = (\<lambda>_. default_Property),
      leases = (\<lambda>_. default_Lease),
      maintenanceRequests = (\<lambda>_. default_MaintenanceRequest),
      ownerProperties = (\<lambda>_. []),
      tenantLeases = (\<lambda>_. []),
      maintenanceFunds = (\<lambda>_. 0),
      authorizedAIAgents = (\<lambda>_. False),
      propertyCounter = 0,
      leaseCounter = 0,
      maintenanceCounter = 0,
      ownable_owner = deployer,
      paused = False,
      thisAddress = this,
      USDC = tk,
      logs = []\<rparr>"

text \<open>
  Reachable states: the contract is deployed by a non-zero account at a fresh non-zero
  address, for which the ledger holds no allowance yet; afterwards accounts other than
  the contract itself (which makes no calls of its own) and \<^verbatim>\<open>address(0)\<close> send calls.
\<close>

inductive reachable :: "RentFlowCore \<Rightarrow> bool" where
  reachable_init:
    "deployer \<noteq> 0 \<Longrightarrow> this \<noteq> 0 \<Longrightarrow> deployer \<noteq> this \<Longrightarrow> (\<And>sp. allowance tk this sp = 0)
       \<Longrightarrow> reachable (constructor deployer this tk)"
| reachable_step:
    "reachable s \<Longrightarrow> sender e \<noteq> 0 \<Longrightarrow> sender e \<noteq> thisAddress s \<Longrightarrow> reachable (step e c s)"

text \<open>
  The invariant of reachable states: the contract never grants an allowance and owns no
  property; an active property has a positive rent and a deposit of at least the rent;
  property ids at or above the counter hold the default record; a lease id at or above
  the counter has no tenant; no lease has the contract as tenant; escrow balances are in
  range.
\<close>

definition invariant :: "RentFlowCore \<Rightarrow> bool" where
  "invariant s \<longleftrightarrow>
     thisAddress s \<noteq> 0
     \<and> (\<forall>sp. allowance (USDC s) (thisAddress s) sp = 0)
     \<and> (\<forall>p. isActive (properties s p) \<longrightarrow>
            0 < monthlyRent (properties s p)
            \<and> monthlyRent (properties s p) \<le> securityDeposit (properties s p))
     \<and> (\<forall>p. owner (properties s p) \<noteq> thisAddress s)
     \<and> (\<forall>p. propertyCounter s \<le> p \<longrightarrow> properties s p = default_Property)
     \<and> (\<forall>l. leaseCounter s \<le> l \<longrightarrow> tenant (leases s l) = 0)
     \<and> (\<forall>l. tenant (leases s l) \<noteq> thisAddress s)
     \<and> (\<forall>p. maintenanceFunds s p \<le> uint256_max)"

text \<open>The number of calls of a sequence that succeed, each run in the state its
  predecessors leave.\<close>

fun successes :: "(env \<times> call) list \<Rightarrow> RentFlowCore \<Rightarrow> nat" where
  "successes [] s = 0"
| "successes ((e, c) # cs) s =
     (case exec e c s of Inl err \<Rightarrow> successes cs s | Inr s' \<Rightarrow> Suc (successes cs s'))"

text \<open>
  The overdue rule in the words of the specification: if the lease was never paid and
  \<open>now > startDate + 5 days\<close>, signal overdue with the elapsed days since the start;
  else if the days since the last payment exceed 35, signal overdue with
  \<open>daysSincePayment - 30\<close>. Days since the last payment are only counted for a lease that
  has a last payment.
\<close>

definition overdue_signal :: "uint256 \<Rightarrow> uint256 \<Rightarrow> Lease \<Rightarrow> event list" where
  "overdue_signal now leaseId lease =
     (if lastPaymentDate lease = 0 \<and> now > startDate lease + 5 * days then
        [RentOverdue leaseId ((now - startDate lease) div days)]
      else if lastPaymentDate lease \<noteq> 0 \<and> (now - lastPaymentDate lease) div days > 35 then
        [RentOverdue leaseId ((now - lastPaymentDate lease) div days - 30)]
      else [])"

text \<open>The state with the \<^verbatim>\<open>isActive\<close> flag of one property set to a given value.\<close>

definition with_isActive :: "uint256 \<Rightarrow> bool \<Rightarrow> RentFlowCore \<Rightarrow> RentFlowCore" where
  "with_isActive p b s = s\<lparr>properties := (properties s)(p := (properties s p)\<lparr>isActive := b\<rparr>)\<rparr>"

subsection \<open>A concrete deployment\<close>

text \<open>
  The accounts of the test suite as numbers: 1 deploys the contract, 2 is the contract's
  own address, 3 owns the property, 4 is the tenant, 5 the authorized agent, 6 the
  contractor, 7 an account with no role. Owner and tenant hold tokens and have approved
  the contract as spender, on a ledger that throws on failure, as the one of the test
  suite. Rent and deposit are 2500, a maintenance job costs 150; the lease starts at time
  100 and lasts one month of 30 days.
\<close>

definition env_of :: "address \<Rightarrow> uint256 \<Rightarrow> env" where
  "env_of a t = \<lparr>sender = a, timestamp = t\<rparr>"

definition ledger0 :: token where
  "ledger0 =
     \<lparr>balanceOf = (\<lambda>_. 0)(3 := 100000, 4 := 50000),
      allowance = (\<lambda>_ _. 0)(3 := (\<lambda>_. 0)(2 := 10000), 4 := (\<lambda>_. 0)(2 := 10000)),
      throwsOnFailure = True\<rparr>"

definition deployed :: RentFlowCore where
  "deployed = constructor 1 2 ledger0"

definition registered :: RentFlowCore where
  "registered =
     run [(env_of 1 100, SetAIAgent 5 True), (env_of 3 100, RegisterProperty 2500 2500)] deployed"

text \<open>The same deployment on a ledger that returns \<^verbatim>\<open>false\<close> on failure.\<close>

definition registered_quiet :: RentFlowCore where
  "registered_quiet =
     run [(env_of 1 100, SetAIAgent 5 True), (env_of 3 100, RegisterProperty 2500 2500)]
       (constructor 1 2 (ledger0\<lparr>throwsOnFailure := False\<rparr>))"

definition leased :: RentFlowCore where
  "leased = run [(env_of 3 100, CreateLease 0 4 100 1 1)] registered"

definition self_leased :: RentFlowCore where
  "self_leased = run [(env_of 3 100, CreateLease 0 3 100 1 1)] registered"

definition settled :: RentFlowCore where
  "settled = run [(env_of 3 2592101, ReturnSecurityDeposit 0 500)] leased"

definition requested :: RentFlowCore where
  "requested = run [(env_of 3 100, RequestMaintenance 0 ''Fix leak'' 150)] registered"

definition approved :: RentFlowCore where
  "approved = run [(env_of 5 100, ApproveMaintenance 0 150 6)] requested"

definition funded :: RentFlowCore where
  "funded = run [(env_of 3 100, FundMaintenance 0 150)] approved"

definition paid :: RentFlowCore where
  "paid = run [(env_of 3 100, PayMaintenanceContractor 0)] funded"

text \<open>An agent approves and pays request id 0 before any request was made.\<close>

definition phantom_paid :: RentFlowCore where
  "phantom_paid =
     run [(env_of 3 100, FundMaintenance 0 1000), (env_of 5 100, ApproveMaintenance 0 150 6),
          (env_of 5 100, PayMaintenanceContractor 0)] registered"

definition paused_leased :: RentFlowCore where
  "paused_leased = run [(env_of 1 100, Pause)] leased"

definition paused_registered :: RentFlowCore where
  "paused_registered = run [(env_of 1 100, Pause)] registered"

definition deactivated_leased :: RentFlowCore where
  "deactivated_leased = run [(env_of 3 100, DeactivateProperty 0)] leased"

section \<open>What a successful call does\<close>

text \<open>
  For each operation, the checks a successful call has passed and the state it leaves,
  read off the definition.
\<close>

lemmas op_defs =
  registerProperty_def deactivateProperty_def createLease_def payRent_def checkRentOverdue_def
  overdueEvents_def requestMaintenance_def isTenantOfProperty_def approveMaintenance_def
  fundMaintenance_def payMaintenanceContractor_def returnSecurityDeposit_def setAIAgent_def
  pause_def unpause_def transferOwnership_def renounceOwnership_def ledger_call_def
  ledger_failed_def
  token_transfer_def token_transferFrom_def token_approve_def token_mint_def token_burn_def
  move_def step_def Let_def uint256_max_def autoApprovalLimit_def days_def

lemmas scenario_defs =
  env_of_def ledger0_def deployed_def constructor_def default_Property_def default_Lease_def
  default_MaintenanceRequest_def registered_def

lemma move_zero: "move a b 0 f = f"
  by (auto simp: move_def)

lemma token_transfer_SomeD:
  "token_transfer c t a tk = Some tk' \<Longrightarrow>
     a \<le> balanceOf tk c \<and> tk' = tk\<lparr>balanceOf := move c t a (balanceOf tk)\<rparr>"
  by (auto simp: token_transfer_def split: if_splits)

lemma token_transferFrom_SomeD:
  "token_transferFrom sp f t a tk = Some tk' \<Longrightarrow>
     a \<le> allowance tk f sp \<and> a \<le> balanceOf tk f
     \<and> balanceOf tk' = move f t a (balanceOf tk)
     \<and> allowance tk' = (allowance tk)(f := (allowance tk f)(sp := allowance tk f sp - a))"
  by (auto simp: token_transferFrom_def split: if_splits)

lemma registerProperty_InrD:
  assumes "registerProperty e r d s = Inr (i, s')"
  shows "\<not> paused s \<and> 0 < r \<and> r \<le> d \<and> i = propertyCounter s
     \<and> s' = s\<lparr>propertyCounter := propertyCounter s + 1,
              properties := (properties s)(propertyCounter s :=
                \<lparr>owner = sender e, monthlyRent = r, securityDeposit = d, isActive = True,
                 Property.createdAt = timestamp e\<rparr>),
              ownerProperties := (ownerProperties s)
                (sender e := ownerProperties s (sender e) @ [propertyCounter s]),
              logs := logs s @ [PropertyRegistered (propertyCounter s) (sender e) r]\<rparr>"
  using assms unfolding registerProperty_def Let_def
  by (auto split: if_splits)

lemma deactivateProperty_InrD:
  assumes "deactivateProperty e p s = Inr s'"
  shows "owner (properties s p) = sender e
     \<and> s' = s\<lparr>properties := (properties s)(p := (properties s p)\<lparr>isActive := False\<rparr>)\<rparr>"
  using assms unfolding deactivateProperty_def
  by (auto split: if_splits)

lemma createLease_InrD:
  assumes "createLease e p t sd dm rd s = Inr (i, s')"
  shows "owner (properties s p) = sender e \<and> isActive (properties s p) \<and> t \<noteq> 0
     \<and> i = leaseCounter s
     \<and> securityDeposit (properties s p) \<le> allowance (USDC s) t (thisAddress s)
     \<and> securityDeposit (properties s p) \<le> balanceOf (USDC s) t
     \<and> (\<exists>tk. balanceOf tk =
               move t (thisAddress s) (securityDeposit (properties s p)) (balanceOf (USDC s))
           \<and> allowance tk = (allowance (USDC s))
               (t := (allowance (USDC s) t)
                  (thisAddress s := allowance (USDC s) t (thisAddress s)
                     - securityDeposit (properties s p)))
           \<and> s' = s\<lparr>leaseCounter := leaseCounter s + 1,
                USDC := tk,
                leases := (leases s)(leaseCounter s :=
                  \<lparr>Lease.propertyId = p, tenant = t, startDate = sd,
                   endDate = sd + dm * (30 * days), rentDueDay = rd, lastPaymentDate = 0,
                   totalPaid = 0, Lease.status = Active,
                   securityDepositHeld = securityDeposit (properties s p)\<rparr>),
                tenantLeases := (tenantLeases s)(t := tenantLeases s t @ [leaseCounter s]),
                logs := logs s @ [LeaseCreated (leaseCounter s) p t]\<rparr>)"
  using assms unfolding createLease_def Let_def
  by (auto split: if_splits option.splits dest!: token_transferFrom_SomeD)

lemma payRent_InrD:
  assumes "payRent e l s = Inr s'"
  shows "\<not> paused s \<and> Lease.status (leases s l) = Active \<and> sender e = tenant (leases s l)
     \<and> startDate (leases s l) \<le> timestamp e \<and> timestamp e \<le> endDate (leases s l)
     \<and> totalPaid (leases s l) + monthlyRent (properties s (Lease.propertyId (leases s l)))
          \<le> uint256_max
     \<and> (\<exists>tk. balanceOf tk =
               move (sender e) (owner (properties s (Lease.propertyId (leases s l))))
                 (monthlyRent (properties s (Lease.propertyId (leases s l)))) (balanceOf (USDC s))
           \<and> allowance tk = (allowance (USDC s))
               (sender e := (allowance (USDC s) (sender e))
                  (thisAddress s := allowance (USDC s) (sender e) (thisAddress s)
                     - monthlyRent (properties s (Lease.propertyId (leases s l)))))
           \<and> s' = s\<lparr>USDC := tk,
                leases := (leases s)(l := (leases s l)
                  \<lparr>lastPaymentDate := timestamp e,
                   totalPaid := totalPaid (leases s l)
                     + monthlyRent (properties s (Lease.propertyId (leases s l)))\<rparr>),
                logs := logs s @ [RentPaid l
                  (monthlyRent (properties s (Lease.propertyId (leases s l)))) (timestamp e)]\<rparr>)"
  using assms unfolding payRent_def Let_def
  by (auto split: if_splits option.splits dest!: token_transferFrom_SomeD)

lemma checkRentOverdue_InrD:
  assumes "checkRentOverdue e l s = Inr s'"
  shows "authorizedAIAgents s (sender e) \<and> Lease.status (leases s l) = Active
     \<and> (\<exists>evs. overdueEvents (timestamp e) l (leases s l) = Inr evs
           \<and> s' = s\<lparr>logs := logs s @ evs\<rparr>)"
  using assms unfolding checkRentOverdue_def Let_def
  by (auto split: if_splits sum.splits)

lemma requestMaintenance_InrD:
  assumes "requestMaintenance e p d c s = Inr (i, s')"
  shows "isActive (properties s p) \<and> i = maintenanceCounter s
     \<and> s' = s\<lparr>maintenanceCounter := maintenanceCounter s + 1,
            maintenanceRequests := (maintenanceRequests s)(maintenanceCounter s :=
              \<lparr>MaintenanceRequest.propertyId = p, requestedBy = sender e,
               description = d, estimatedCost = c, approvedAmount = 0, contractor = 0,
               MaintenanceRequest.status = Pending,
               MaintenanceRequest.createdAt = timestamp e\<rparr>),
            logs := logs s @ [MaintenanceRequested (maintenanceCounter s) p c]\<rparr>"
  using assms unfolding requestMaintenance_def Let_def
  by (auto split: if_splits)

lemma approveMaintenance_InrD:
  assumes "approveMaintenance e r a c s = Inr s'"
  shows "authorizedAIAgents s (sender e)
     \<and> MaintenanceRequest.status (maintenanceRequests s r) = Pending
     \<and> 0 < a \<and> c \<noteq> 0 \<and> a \<le> autoApprovalLimit
     \<and> s' = s\<lparr>maintenanceRequests := (maintenanceRequests s)(r :=
                (maintenanceRequests s r)\<lparr>approvedAmount := a, contractor := c,
                  MaintenanceRequest.status := Approved\<rparr>),
              logs := logs s @ [MaintenanceApproved r a c]\<rparr>"
  using assms unfolding approveMaintenance_def Let_def
  by (auto split: if_splits)

lemma fundMaintenance_InrD:
  assumes "fundMaintenance e p a s = Inr s'"
  shows "owner (properties s p) = sender e \<and> 0 < a
     \<and> maintenanceFunds s p + a \<le> uint256_max
     \<and> (\<exists>tk. balanceOf tk = move (sender e) (thisAddress s) a (balanceOf (USDC s))
           \<and> allowance tk = (allowance (USDC s))
               (sender e := (allowance (USDC s) (sender e))
                  (thisAddress s := allowance (USDC s) (sender e) (thisAddress s) - a))
           \<and> s' = s\<lparr>USDC := tk,
                maintenanceFunds := (maintenanceFunds s)(p := maintenanceFunds s p + a),
                logs := logs s @ [MaintenanceFundAdded p a]\<rparr>)"
  using assms unfolding fundMaintenance_def Let_def
  by (auto split: if_splits option.splits dest!: token_transferFrom_SomeD)

lemma payMaintenanceContractor_InrD:
  assumes "payMaintenanceContractor e r s = Inr s'"
  shows "MaintenanceRequest.status (maintenanceRequests s r) = Approved
     \<and> (sender e = owner (properties s (MaintenanceRequest.propertyId (maintenanceRequests s r)))
          \<or> authorizedAIAgents s (sender e))
     \<and> approvedAmount (maintenanceRequests s r)
          \<le> maintenanceFunds s (MaintenanceRequest.propertyId (maintenanceRequests s r))
     \<and> approvedAmount (maintenanceRequests s r) \<le> balanceOf (USDC s) (thisAddress s)
     \<and> s' = s\<lparr>maintenanceFunds := (maintenanceFunds s)
                (MaintenanceRequest.propertyId (maintenanceRequests s r) :=
                   maintenanceFunds s (MaintenanceRequest.propertyId (maintenanceRequests s r))
                     - approvedAmount (maintenanceRequests s r)),
              maintenanceRequests := (maintenanceRequests s)(r :=
                (maintenanceRequests s r)\<lparr>MaintenanceRequest.status := MaintenanceStatus.Completed\<rparr>),
              USDC := (USDC s)\<lparr>balanceOf :=
                move (thisAddress s) (contractor (maintenanceRequests s r))
                  (approvedAmount (maintenanceRequests s r)) (balanceOf (USDC s))\<rparr>,
              logs := logs s @ [MaintenancePaid r (approvedAmount (maintenanceRequests s r))
                (contractor (maintenanceRequests s r))]\<rparr>"
  using assms unfolding payMaintenanceContractor_def Let_def
  by (auto split: if_splits option.splits dest!: token_transfer_SomeD)



lemma returnSecurityDeposit_InrD:
  assumes "returnSecurityDeposit e l d s = Inr s'"
  shows "(sender e = owner (properties s (Lease.propertyId (leases s l))) \<or> authorizedAIAgents s (sender e))
     \<and> (Lease.status (leases s l) = LeaseStatus.Completed \<or> endDate (leases s l) < timestamp e)
     \<and> d \<le> securityDepositHeld (leases s l)
     \<and> s' = s\<lparr>leases := (leases s)(l := (leases s l)\<lparr>securityDepositHeld := 0, Lease.status := LeaseStatus.Completed\<rparr>),
              USDC := (USDC s)\<lparr>balanceOf :=
                 move (thisAddress s) (owner (properties s (Lease.propertyId (leases s l)))) d
                   (move (thisAddress s) (tenant (leases s l)) (securityDepositHeld (leases s l) - d)
                      (balanceOf (USDC s)))\<rparr>,
              logs := logs s @ [SecurityDepositReturned l (tenant (leases s l)) (securityDepositHeld (leases s l) - d)]\<rparr>"
  using assms unfolding returnSecurityDeposit_def Let_def
  by (auto simp: move_zero split: if_splits option.splits dest!: token_transfer_SomeD)


section \<open>The invariant holds in every reachable state\<close>

lemma diff_le_bound: "(x::nat) \<le> m \<Longrightarrow> x - a \<le> m"
  by simp

lemma inv_init:
  "deployer \<noteq> 0 \<Longrightarrow> this \<noteq> 0 \<Longrightarrow> deployer \<noteq> this \<Longrightarrow> (\<And>sp. allowance tk this sp = 0)
     \<Longrightarrow> invariant (constructor deployer this tk)"
  by (simp add: invariant_def constructor_def default_Property_def default_Lease_def)

lemma inv_registerProperty:
  "invariant s \<Longrightarrow> sender e \<noteq> thisAddress s \<Longrightarrow> registerProperty e r d s = Inr (i, s')
     \<Longrightarrow> invariant s'"
  by (drule registerProperty_InrD) (auto simp: invariant_def split: if_splits)

lemma inv_deactivateProperty:
  "invariant s \<Longrightarrow> sender e \<noteq> 0 \<Longrightarrow> deactivateProperty e p s = Inr s' \<Longrightarrow> invariant s'"
  by (drule deactivateProperty_InrD) (auto simp: invariant_def default_Property_def split: if_splits)

lemma createLease_tenant_not_this:
  assumes "invariant s" and "createLease e p t sd dm rd s = Inr (i, s')"
  shows "t \<noteq> thisAddress s"
proof
  assume "t = thisAddress s"
  moreover from assms(2) have "isActive (properties s p)"
    and "securityDeposit (properties s p) \<le> allowance (USDC s) t (thisAddress s)"
    by (auto dest: createLease_InrD)
  moreover from assms(1) have "allowance (USDC s) (thisAddress s) (thisAddress s) = 0"
    and "isActive (properties s p) \<Longrightarrow> 0 < securityDeposit (properties s p)"
    by (auto simp: invariant_def)
  ultimately show False by simp
qed

lemma inv_createLease:
  assumes "invariant s" and "createLease e p t sd dm rd s = Inr (i, s')"
  shows "invariant s'"
  using createLease_tenant_not_this [OF assms] createLease_InrD [OF assms(2)] assms(1)
  by (auto simp: invariant_def split: if_splits)

lemma inv_payRent:
  "invariant s \<Longrightarrow> payRent e l s = Inr s' \<Longrightarrow> invariant s'"
  by (drule payRent_InrD) (auto simp: invariant_def split: if_splits)

lemma inv_checkRentOverdue:
  "invariant s \<Longrightarrow> checkRentOverdue e l s = Inr s' \<Longrightarrow> invariant s'"
  by (drule checkRentOverdue_InrD) (auto simp: invariant_def split: if_splits)

lemma inv_requestMaintenance:
  "invariant s \<Longrightarrow> requestMaintenance e p d c s = Inr (i, s') \<Longrightarrow> invariant s'"
  by (drule requestMaintenance_InrD) (auto simp: invariant_def split: if_splits)

lemma inv_approveMaintenance:
  "invariant s \<Longrightarrow> approveMaintenance e r a c s = Inr s' \<Longrightarrow> invariant s'"
  by (drule approveMaintenance_InrD) (auto simp: invariant_def split: if_splits)

lemma inv_fundMaintenance:
  "invariant s \<Longrightarrow> sender e \<noteq> thisAddress s \<Longrightarrow> fundMaintenance e p a s = Inr s'
     \<Longrightarrow> invariant s'"
  by (drule fundMaintenance_InrD) (auto simp: invariant_def split: if_splits)

lemma inv_payMaintenanceContractor:
  "invariant s \<Longrightarrow> payMaintenanceContractor e r s = Inr s' \<Longrightarrow> invariant s'"
  by (drule payMaintenanceContractor_InrD) (auto simp: invariant_def diff_le_bound split: if_splits)

lemma inv_returnSecurityDeposit:
  "invariant s \<Longrightarrow> returnSecurityDeposit e l d s = Inr s' \<Longrightarrow> invariant s'"
  by (drule returnSecurityDeposit_InrD) (auto simp: invariant_def split: if_splits)

lemma inv_setAIAgent: "invariant s \<Longrightarrow> setAIAgent e a b s = Inr s' \<Longrightarrow> invariant s'"
  by (auto simp: invariant_def setAIAgent_def split: if_splits)

lemma inv_pause: "invariant s \<Longrightarrow> pause e s = Inr s' \<Longrightarrow> invariant s'"
  by (auto simp: invariant_def pause_def split: if_splits)

lemma inv_unpause: "invariant s \<Longrightarrow> unpause e s = Inr s' \<Longrightarrow> invariant s'"
  by (auto simp: invariant_def unpause_def split: if_splits)

lemma inv_transferOwnership:
  "invariant s \<Longrightarrow> transferOwnership e a s = Inr s' \<Longrightarrow> invariant s'"
  by (auto simp: invariant_def transferOwnership_def split: if_splits)

lemma inv_renounceOwnership: "invariant s \<Longrightarrow> renounceOwnership e s = Inr s' \<Longrightarrow> invariant s'"
  by (auto simp: invariant_def renounceOwnership_def split: if_splits)

lemma transferFrom_allowance_this:
  "invariant s \<Longrightarrow> token_transferFrom sp f t a (USDC s) = Some tk
     \<Longrightarrow> allowance tk (thisAddress s) = allowance (USDC s) (thisAddress s)"
  by (auto dest!: token_transferFrom_SomeD simp: invariant_def fun_eq_iff)

lemma inv_ledger_call:
  "invariant s \<Longrightarrow> ledger_call s r = Inr s' \<Longrightarrow>
     (\<And>tk. r = Some tk \<Longrightarrow> allowance tk (thisAddress s) = allowance (USDC s) (thisAddress s))
     \<Longrightarrow> invariant s'"
  by (auto simp: invariant_def ledger_call_def split: option.splits if_splits)


lemma inv_exec:
  assumes "invariant s" and "sender e \<noteq> 0" and "sender e \<noteq> thisAddress s"
    and "exec e c s = Inr s'"
  shows "invariant s'"
proof (cases c)
  case (RegisterProperty r d)
  with assms show ?thesis
    by (auto simp: map_sum_def split: sum.splits dest: inv_registerProperty)
next
  case (DeactivateProperty p)
  with assms show ?thesis by (auto dest: inv_deactivateProperty)
next
  case (CreateLease p t sd dm rd)
  with assms show ?thesis
    by (auto simp: map_sum_def split: sum.splits dest: inv_createLease)
next
  case (PayRent l)
  with assms show ?thesis by (auto dest: inv_payRent)
next
  case (CheckRentOverdue l)
  with assms show ?thesis by (auto dest: inv_checkRentOverdue)
next
  case (RequestMaintenance p d c)
  with assms show ?thesis
    by (auto simp: map_sum_def split: sum.splits dest: inv_requestMaintenance)
next
  case (ApproveMaintenance r a c)
  with assms show ?thesis by (auto dest: inv_approveMaintenance)
next
  case (FundMaintenance p a)
  with assms show ?thesis by (auto dest: inv_fundMaintenance)
next
  case (PayMaintenanceContractor r)
  with assms show ?thesis by (auto dest: inv_payMaintenanceContractor)
next
  case (ReturnSecurityDeposit l d)
  with assms show ?thesis by (auto dest: inv_returnSecurityDeposit)
next
  case (SetAIAgent a b)
  with assms show ?thesis by (auto dest: inv_setAIAgent)
next
  case Pause
  with assms show ?thesis by (auto dest: inv_pause)
next
  case Unpause
  with assms show ?thesis by (auto dest: inv_unpause)
next
  case (TransferOwnership a)
  with assms show ?thesis by (auto dest: inv_transferOwnership)
next
  case RenounceOwnership
  with assms show ?thesis by (auto dest: inv_renounceOwnership)
next
  case (TokenApprove sp a)
  with assms(4) have *: "ledger_call s (Some (token_approve (sender e) sp a (USDC s))) = Inr s'"
    by simp
  show ?thesis
    using assms(3) by (intro inv_ledger_call [OF assms(1) *]) (auto simp: token_approve_def)
next
  case (TokenTransfer to a)
  with assms(4) have *: "ledger_call s (token_transfer (sender e) to a (USDC s)) = Inr s'"
    by simp
  show ?thesis
    by (intro inv_ledger_call [OF assms(1) *]) (auto dest!: token_transfer_SomeD)
next
  case (TokenTransferFrom f to a)
  with assms(4) have *:
    "ledger_call s (token_transferFrom (sender e) f to a (USDC s)) = Inr s'"
    by simp
  show ?thesis
    by (intro inv_ledger_call [OF assms(1) *])
      (auto dest: transferFrom_allowance_this [OF assms(1)])
next
  case (TokenMint to a)
  with assms(4) have *: "ledger_call s (Some (token_mint to a (USDC s))) = Inr s'"
    by simp
  show ?thesis
    by (intro inv_ledger_call [OF assms(1) *]) (auto simp: token_mint_def)
next
  case (TokenBurn a)
  with assms(4) have *: "ledger_call s (token_burn (sender e) a (USDC s)) = Inr s'"
    by simp
  show ?thesis
    by (intro inv_ledger_call [OF assms(1) *]) (auto simp: token_burn_def split: if_splits)
qed

lemma inv_step:
  "invariant s \<Longrightarrow> sender e \<noteq> 0 \<Longrightarrow> sender e \<noteq> thisAddress s \<Longrightarrow> invariant (step e c s)"
  by (auto simp: step_def split: sum.splits dest: inv_exec)

lemma reachable_invariant: "reachable s \<Longrightarrow> invariant s"
  by (induction rule: reachable.induct) (auto intro: inv_init inv_step)

section \<open>Frame facts\<close>

lemma admin_InrD:
  "setAIAgent e a b s = Inr s' \<Longrightarrow>
     s' = s\<lparr>authorizedAIAgents := (authorizedAIAgents s)(a := b),
            logs := logs s @ [AIAgentAuthorized a b]\<rparr>"
  "pause e s = Inr s' \<Longrightarrow> s' = s\<lparr>paused := True\<rparr>"
  "unpause e s = Inr s' \<Longrightarrow> s' = s\<lparr>paused := False\<rparr>"
  "transferOwnership e a s = Inr s' \<Longrightarrow> s' = s\<lparr>ownable_owner := a\<rparr>"
  "renounceOwnership e s = Inr s' \<Longrightarrow> s' = s\<lparr>ownable_owner := 0\<rparr>"
  "ledger_call s r = Inr s' \<Longrightarrow> \<exists>tk. s' = s\<lparr>USDC := tk\<rparr>"
  by (auto simp: setAIAgent_def pause_def unpause_def transferOwnership_def
      renounceOwnership_def ledger_call_def split: if_splits option.splits
      intro: exI [of _ "USDC s"])

lemma exec_frame:
  assumes "exec e c s = Inr s'"
  shows "thisAddress s' = thisAddress s \<and> propertyCounter s \<le> propertyCounter s'
     \<and> leaseCounter s \<le> leaseCounter s' \<and> maintenanceCounter s \<le> maintenanceCounter s'"
  using assms
  by (cases c)
    (auto simp: map_sum_def split: sum.splits
      dest!: registerProperty_InrD deactivateProperty_InrD createLease_InrD payRent_InrD
        checkRentOverdue_InrD requestMaintenance_InrD approveMaintenance_InrD
        fundMaintenance_InrD payMaintenanceContractor_InrD returnSecurityDeposit_InrD
        admin_InrD)

lemma step_frame:
  "thisAddress (step e c s) = thisAddress s \<and> propertyCounter s \<le> propertyCounter (step e c s)
     \<and> leaseCounter s \<le> leaseCounter (step e c s)
     \<and> maintenanceCounter s \<le> maintenanceCounter (step e c s)"
  by (cases "exec e c s") (auto simp: step_def dest: exec_frame)

lemma step_thisAddress: "thisAddress (step e c s) = thisAddress s"
  by (simp add: step_frame)

lemma run_thisAddress: "thisAddress (run cs s) = thisAddress s"
  by (induction cs arbitrary: s) (auto simp: step_thisAddress)

lemma reachable_run:
  "reachable s \<Longrightarrow> list_all (\<lambda>(e, c). sender e \<noteq> 0 \<and> sender e \<noteq> thisAddress s) cs
     \<Longrightarrow> reachable (run cs s)"
proof (induction cs arbitrary: s)
  case Nil
  then show ?case by simp
next
  case (Cons x cs)
  obtain e c where x: "x = (e, c)" by (cases x)
  with Cons.prems have "reachable (step e c s)"
    by (auto intro: reachable_step)
  moreover from Cons.prems x
  have "list_all (\<lambda>(e', c'). sender e' \<noteq> 0 \<and> sender e' \<noteq> thisAddress (step e c s)) cs"
    by (simp add: step_frame)
  ultimately show ?case using x by (simp add: Cons.IH)
qed

subsection \<open>The concrete deployment is reachable\<close>

lemma reachable_deployed: "reachable deployed"
  unfolding deployed_def by (rule reachable_init) (simp_all add: ledger0_def)

lemma thisAddress_deployed: "thisAddress deployed = 2"
  by (simp add: deployed_def constructor_def)

lemma reachable_registered: "reachable registered"
  unfolding registered_def
  by (rule reachable_run [OF reachable_deployed]) (simp add: thisAddress_deployed env_of_def)

lemma thisAddress_registered: "thisAddress registered = 2"
  by (simp add: registered_def run_thisAddress step_thisAddress thisAddress_deployed)

lemma reachable_requested: "reachable requested"
  unfolding requested_def
  by (rule reachable_run [OF reachable_registered]) (simp add: thisAddress_registered env_of_def)

lemma thisAddress_requested: "thisAddress requested = 2"
  by (simp add: requested_def run_thisAddress step_thisAddress thisAddress_registered)

lemma reachable_approved: "reachable approved"
  unfolding approved_def
  by (rule reachable_run [OF reachable_requested]) (simp add: thisAddress_requested env_of_def)

lemma reachable_leased: "reachable leased"
  unfolding leased_def
  by (rule reachable_run [OF reachable_registered]) (simp add: thisAddress_registered env_of_def)

section \<open>Rent overdue check\<close>

lemma overdueEvents_InrD:
  "overdueEvents now l lease = Inr evs \<Longrightarrow> evs = overdue_signal now l lease"
  by (auto simp: overdueEvents_def overdue_signal_def Let_def split: if_splits)

text \<open>
  Claim C9. \<^verbatim>\<open>checkRentOverdue\<close> is side-effect-free on state: for every lease id,
  caller and time, the state after the call (whether it succeeds or reverts) is the state
  before it with, at most, events appended to the log. So every Property, Lease and
  MaintenanceRequest record, every escrow balance, the agent set, the counters, the
  ledger, the owner and the pause flag are exactly as they were. A reverted call appends
  nothing; a successful call appends the overdue signal of the stated rule.
\<close>

theorem checkRentOverdue_only_logs:
  "step e (CheckRentOverdue l) s =
     s\<lparr>logs := logs s @ (if isl (checkRentOverdue e l s) then []
                          else overdue_signal (timestamp e) l (leases s l))\<rparr>"
proof (cases "checkRentOverdue e l s")
  case (Inl err)
  then show ?thesis by (simp add: step_def)
next
  case (Inr s')
  then show ?thesis
    by (auto simp: step_def dest!: checkRentOverdue_InrD overdueEvents_InrD)
qed

text \<open>The agent checks the unpaid lease ten days after its start: only the log grows.\<close>

theorem checkRentOverdue_only_logs_witness:
  "step (env_of 5 864100) (CheckRentOverdue 0) leased =
     leased\<lparr>logs := logs leased @ [RentOverdue 0 10]\<rparr>"
  using checkRentOverdue_only_logs [of "env_of 5 864100" 0 leased]
  by (simp add: op_defs scenario_defs leased_def overdue_signal_def)

section \<open>Maintenance approval\<close>

text \<open>
  Claim C2 (amended). \<^verbatim>\<open>approveMaintenance\<close> never succeeds with an approved amount above
  \<open>500_000000\<close>, for any caller, request and contractor: every such call reverts and
  leaves the whole state, and so the request, as it was. The revert reason is
  \<^verbatim>\<open>Exceeds AI approval limit\<close> when the checks before the cap pass: the caller is an
  authorized agent, the request is Pending and the contractor is not the zero address.
  Otherwise the first of these checks that fails gives the reason:
  \<^verbatim>\<open>Not authorized AI agent\<close>, \<^verbatim>\<open>Request not pending\<close> or
  \<^verbatim>\<open>Invalid contractor address\<close>.
\<close>

theorem approveMaintenance_cap:
  assumes "500000000 < a"
  shows "approveMaintenance e r a c s =
       Inl (if \<not> authorizedAIAgents s (sender e) then Revert ''Not authorized AI agent''
            else if MaintenanceRequest.status (maintenanceRequests s r) \<noteq> Pending then
              Revert ''Request not pending''
            else if c = 0 then Revert ''Invalid contractor address''
            else Revert ''Exceeds AI approval limit'')
     \<and> step e (ApproveMaintenance r a c) s = s"
proof -
  from assms have 1: "approveMaintenance e r a c s =
       Inl (if \<not> authorizedAIAgents s (sender e) then Revert ''Not authorized AI agent''
            else if MaintenanceRequest.status (maintenanceRequests s r) \<noteq> Pending then
              Revert ''Request not pending''
            else if c = 0 then Revert ''Invalid contractor address''
            else Revert ''Exceeds AI approval limit'')"
    by (simp add: approveMaintenance_def autoApprovalLimit_def)
  then have "step e (ApproveMaintenance r a c) s = s"
    by (simp add: step_def)
  with 1 show ?thesis by blast
qed

text \<open>The agent proposes 501 units for the pending request: refused by the cap, the
  request stays Pending.\<close>

theorem approveMaintenance_cap_witness:
  "(500000000 :: nat) < 501000000
   \<and> approveMaintenance (env_of 5 100) 0 501000000 6 requested
       = Inl (Revert ''Exceeds AI approval limit'')
   \<and> step (env_of 5 100) (ApproveMaintenance 0 501000000 6) requested = requested
   \<and> MaintenanceRequest.status (maintenanceRequests requested 0) = Pending
   \<and> approvedAmount (maintenanceRequests requested 0) = 0
   \<and> contractor (maintenanceRequests requested 0) = 0"
proof -
  have 1: "authorizedAIAgents requested (sender (env_of 5 100))
     \<and> MaintenanceRequest.status (maintenanceRequests requested 0) = Pending
     \<and> approvedAmount (maintenanceRequests requested 0) = 0
     \<and> contractor (maintenanceRequests requested 0) = 0"
    by (simp add: op_defs scenario_defs requested_def)
  from approveMaintenance_cap [of 501000000 "env_of 5 100" 0 6 requested] 1
  show ?thesis by simp
qed

text \<open>
  As stated, the claim fails: a call above the cap by an account that is no agent reverts
  with \<^verbatim>\<open>Not authorized AI agent\<close>, not with the cap's reason; and for a request that was
  already approved the call reverts with \<^verbatim>\<open>Request not pending\<close> and the request stays
  Approved with its amount of 150, not Pending with amount 0.
\<close>

theorem approveMaintenance_cap_counterexample:
  "(500000000 :: nat) < 501000000
   \<and> approveMaintenance (env_of 7 100) 0 501000000 6 requested
       = Inl (Revert ''Not authorized AI agent'')
   \<and> approveMaintenance (env_of 5 100) 0 501000000 6 approved
       = Inl (Revert ''Request not pending'')
   \<and> MaintenanceRequest.status
        (maintenanceRequests (step (env_of 5 100) (ApproveMaintenance 0 501000000 6) approved) 0)
       = Approved
   \<and> approvedAmount
        (maintenanceRequests (step (env_of 5 100) (ApproveMaintenance 0 501000000 6) approved) 0)
       = 150"
  by (simp add: op_defs scenario_defs requested_def approved_def)

section \<open>Maintenance escrow and payout\<close>

lemma reachable_funded: "reachable funded"
  unfolding funded_def
  by (rule reachable_run [OF reachable_approved])
    (simp add: approved_def run_thisAddress step_thisAddress thisAddress_requested env_of_def)

lemma reachable_maintenanceFunds_bound: "reachable s \<Longrightarrow> maintenanceFunds s p \<le> uint256_max"
  by (auto dest!: reachable_invariant simp: invariant_def)

text \<open>
  Claim C1 (amended). In every reachable state the escrow balance of every property is an
  unsigned integer in range, and a successful payout debits exactly the approved amount
  from a balance that covers it, so the balance never goes below zero. A call of
  \<^verbatim>\<open>payMaintenanceContractor\<close> for a request whose approved amount exceeds the escrow
  balance of its property always reverts and leaves the whole state, and so the balance
  and the request's status, unchanged. The revert reason is
  \<^verbatim>\<open>Insufficient maintenance funds\<close> when the two checks before the balance check pass:
  the request is Approved and the caller is the property's owner or an authorized agent.
  Otherwise it is \<^verbatim>\<open>Not approved\<close> for a request that is not Approved, and
  \<^verbatim>\<open>Not authorized\<close> for a caller who is neither.
\<close>

theorem payMaintenanceContractor_escrow:
  assumes "reachable s"
  shows "0 \<le> maintenanceFunds s p \<and> maintenanceFunds s p \<le> uint256_max
     \<and> (\<forall>s'. payMaintenanceContractor e r s = Inr s' \<longrightarrow>
           maintenanceFunds s' (MaintenanceRequest.propertyId (maintenanceRequests s r))
             + approvedAmount (maintenanceRequests s r)
           = maintenanceFunds s (MaintenanceRequest.propertyId (maintenanceRequests s r)))
     \<and> (maintenanceFunds s (MaintenanceRequest.propertyId (maintenanceRequests s r))
          < approvedAmount (maintenanceRequests s r) \<longrightarrow>
           payMaintenanceContractor e r s =
             Inl (if MaintenanceRequest.status (maintenanceRequests s r) \<noteq> Approved then
                    Revert ''Not approved''
                  else if \<not> (sender e = owner (properties s
                                  (MaintenanceRequest.propertyId (maintenanceRequests s r)))
                              \<or> authorizedAIAgents s (sender e)) then
                    Revert ''Not authorized''
                  else Revert ''Insufficient maintenance funds'')
           \<and> step e (PayMaintenanceContractor r) s = s)"
proof -
  let ?pid = "MaintenanceRequest.propertyId (maintenanceRequests s r)"
  let ?amount = "approvedAmount (maintenanceRequests s r)"
  let ?err = "if MaintenanceRequest.status (maintenanceRequests s r) \<noteq> Approved then
                    Revert ''Not approved''
                  else if \<not> (sender e = owner (properties s ?pid)
                              \<or> authorizedAIAgents s (sender e)) then
                    Revert ''Not authorized''
                  else Revert ''Insufficient maintenance funds''"
  have 1: "maintenanceFunds s p \<le> uint256_max"
    using assms by (rule reachable_maintenanceFunds_bound)
  have 2: "maintenanceFunds s' ?pid + ?amount = maintenanceFunds s ?pid"
    if "payMaintenanceContractor e r s = Inr s'" for s'
    using payMaintenanceContractor_InrD [OF that] by auto
  have 3: "payMaintenanceContractor e r s = Inl ?err" if "maintenanceFunds s ?pid < ?amount"
    using that by (simp add: payMaintenanceContractor_def Let_def)
  have 4: "step e (PayMaintenanceContractor r) s = s" if "maintenanceFunds s ?pid < ?amount"
    using 3 [OF that] by (simp add: step_def)
  from 1 2 3 4 show ?thesis by blast
qed

text \<open>The owner asks for the payout of the approved 150 while the escrow is empty, and
  again after funding it with 150.\<close>

theorem payMaintenanceContractor_escrow_witness:
  "reachable approved
   \<and> maintenanceFunds approved 0 \<le> uint256_max
   \<and> MaintenanceRequest.propertyId (maintenanceRequests approved 0) = 0
   \<and> maintenanceFunds approved 0 < approvedAmount (maintenanceRequests approved 0)
   \<and> payMaintenanceContractor (env_of 3 100) 0 approved
       = Inl (Revert ''Insufficient maintenance funds'')
   \<and> step (env_of 3 100) (PayMaintenanceContractor 0) approved = approved
   \<and> reachable funded
   \<and> payMaintenanceContractor (env_of 3 100) 0 funded = Inr paid
   \<and> maintenanceFunds paid 0 + 150 = maintenanceFunds funded 0"
proof -
  have 1: "MaintenanceRequest.propertyId (maintenanceRequests approved 0) = 0
     \<and> maintenanceFunds approved 0 < approvedAmount (maintenanceRequests approved 0)
     \<and> MaintenanceRequest.status (maintenanceRequests approved 0) = Approved
     \<and> sender (env_of 3 100) = owner (properties approved 0)"
    by (simp add: op_defs scenario_defs requested_def approved_def)
  from payMaintenanceContractor_escrow [OF reachable_approved, of 0 "env_of 3 100" 0] 1
  have 2: "maintenanceFunds approved 0 \<le> uint256_max
     \<and> payMaintenanceContractor (env_of 3 100) 0 approved
         = Inl (Revert ''Insufficient maintenance funds'')
     \<and> step (env_of 3 100) (PayMaintenanceContractor 0) approved = approved"
    by simp
  have 3: "payMaintenanceContractor (env_of 3 100) 0 funded = Inr paid"
    by (simp add: op_defs scenario_defs requested_def approved_def funded_def paid_def)
  have 4: "MaintenanceRequest.propertyId (maintenanceRequests funded 0) = 0
     \<and> approvedAmount (maintenanceRequests funded 0) = 150"
    by (simp add: op_defs scenario_defs requested_def approved_def funded_def)
  from payMaintenanceContractor_escrow [OF reachable_funded, of 0 "env_of 3 100" 0] 3 4
  have 5: "maintenanceFunds paid 0 + 150 = maintenanceFunds funded 0"
    by simp
  from reachable_approved reachable_funded 1 2 3 5 show ?thesis by blast
qed

text \<open>
  As stated, the claim fails: with an approved amount above the escrow balance, an
  account with no role gets \<^verbatim>\<open>Not authorized\<close>, and the owner asking again for a
  request that was already paid gets \<^verbatim>\<open>Not approved\<close>; neither is the reason of the
  balance check.
\<close>

theorem payMaintenanceContractor_escrow_counterexample:
  "maintenanceFunds approved (MaintenanceRequest.propertyId (maintenanceRequests approved 0))
     < approvedAmount (maintenanceRequests approved 0)
   \<and> payMaintenanceContractor (env_of 7 100) 0 approved = Inl (Revert ''Not authorized'')
   \<and> maintenanceFunds paid (MaintenanceRequest.propertyId (maintenanceRequests paid 0))
     < approvedAmount (maintenanceRequests paid 0)
   \<and> payMaintenanceContractor (env_of 3 100) 0 paid = Inl (Revert ''Not approved'')"
  by (simp add: op_defs scenario_defs requested_def approved_def funded_def paid_def)

lemma completed_exec:
  assumes "exec e c s = Inr s'" and "r < maintenanceCounter s"
    and "MaintenanceRequest.status (maintenanceRequests s r) = MaintenanceStatus.Completed"
  shows "MaintenanceRequest.status (maintenanceRequests s' r) = MaintenanceStatus.Completed"
  using assms
  by (cases c)
    (auto simp: map_sum_def split: sum.splits
      dest!: registerProperty_InrD deactivateProperty_InrD createLease_InrD payRent_InrD
        checkRentOverdue_InrD requestMaintenance_InrD approveMaintenance_InrD
        fundMaintenance_InrD payMaintenanceContractor_InrD returnSecurityDeposit_InrD
        admin_InrD)

lemma completed_step:
  assumes "r < maintenanceCounter s"
    and "MaintenanceRequest.status (maintenanceRequests s r) = MaintenanceStatus.Completed"
  shows "r < maintenanceCounter (step e c s)
     \<and> MaintenanceRequest.status (maintenanceRequests (step e c s) r) = MaintenanceStatus.Completed"
proof (cases "exec e c s")
  case (Inl err)
  with assms show ?thesis by (simp add: step_def)
next
  case (Inr s')
  with assms completed_exec [OF Inr assms] exec_frame [OF Inr] show ?thesis
    by (simp add: step_def)
qed

lemma completed_run:
  "r < maintenanceCounter s
   \<Longrightarrow> MaintenanceRequest.status (maintenanceRequests s r) = MaintenanceStatus.Completed
   \<Longrightarrow> r < maintenanceCounter (run cs s)
     \<and> MaintenanceRequest.status (maintenanceRequests (run cs s) r) = MaintenanceStatus.Completed"
proof (induction cs arbitrary: s)
  case Nil
  then show ?case by simp
next
  case (Cons x cs)
  obtain e c where "x = (e, c)" by (cases x)
  with Cons.IH [OF conjunct1 [OF completed_step] conjunct2 [OF completed_step], OF Cons.prems Cons.prems]
  show ?case by simp
qed

text \<open>
  Claim C3 (amended). \<^verbatim>\<open>payMaintenanceContractor\<close> succeeds only for a request whose
  status is Approved; a successful payout sets the status to Completed, debits the escrow
  of the request's property by exactly the stored approved amount (which the balance
  covers) and moves that amount from the contract to the stored contractor. For a
  request that was allocated by \<^verbatim>\<open>requestMaintenance\<close> (its id is below
  \<^verbatim>\<open>maintenanceCounter\<close>), no later sequence of calls moves it out of Completed, and every
  later payout attempt reverts with \<^verbatim>\<open>Not approved\<close>: it is paid at most once.
\<close>

theorem payMaintenanceContractor_once:
  assumes "payMaintenanceContractor e r s = Inr s'"
  shows "MaintenanceRequest.status (maintenanceRequests s r) = Approved
     \<and> MaintenanceRequest.status (maintenanceRequests s' r) = MaintenanceStatus.Completed
     \<and> approvedAmount (maintenanceRequests s r)
          \<le> maintenanceFunds s (MaintenanceRequest.propertyId (maintenanceRequests s r))
     \<and> maintenanceFunds s' = (maintenanceFunds s)
          (MaintenanceRequest.propertyId (maintenanceRequests s r) :=
             maintenanceFunds s (MaintenanceRequest.propertyId (maintenanceRequests s r))
               - approvedAmount (maintenanceRequests s r))
     \<and> balanceOf (USDC s') =
          move (thisAddress s) (contractor (maintenanceRequests s r))
            (approvedAmount (maintenanceRequests s r)) (balanceOf (USDC s))
     \<and> (r < maintenanceCounter s \<longrightarrow>
          (\<forall>cs e'. MaintenanceRequest.status (maintenanceRequests (run cs s') r)
                     = MaintenanceStatus.Completed
                 \<and> payMaintenanceContractor e' r (run cs s') = Inl (Revert ''Not approved'')))"
proof -
  note D = payMaintenanceContractor_InrD [OF assms]
  have later: "MaintenanceRequest.status (maintenanceRequests (run cs s') r)
        = MaintenanceStatus.Completed
      \<and> payMaintenanceContractor e' r (run cs s') = Inl (Revert ''Not approved'')"
    if "r < maintenanceCounter s" for cs e'
  proof -
    from D that have "r < maintenanceCounter s'"
      and "MaintenanceRequest.status (maintenanceRequests s' r) = MaintenanceStatus.Completed"
      by auto
    from completed_run [OF this, of cs] show ?thesis
      by (simp add: payMaintenanceContractor_def)
  qed
  from D have "MaintenanceRequest.status (maintenanceRequests s r) = Approved"
    and "MaintenanceRequest.status (maintenanceRequests s' r) = MaintenanceStatus.Completed"
    and "approvedAmount (maintenanceRequests s r)
          \<le> maintenanceFunds s (MaintenanceRequest.propertyId (maintenanceRequests s r))"
    and "maintenanceFunds s' = (maintenanceFunds s)
          (MaintenanceRequest.propertyId (maintenanceRequests s r) :=
             maintenanceFunds s (MaintenanceRequest.propertyId (maintenanceRequests s r))
               - approvedAmount (maintenanceRequests s r))"
    and "balanceOf (USDC s') =
          move (thisAddress s) (contractor (maintenanceRequests s r))
            (approvedAmount (maintenanceRequests s r)) (balanceOf (USDC s))"
    by auto
  with later show ?thesis by blast
qed

text \<open>The funded request 0 is paid; an agent then tries to approve it again, a new
  request is filed, and a second payout of request 0 is refused.\<close>

theorem payMaintenanceContractor_once_witness:
  "payMaintenanceContractor (env_of 3 100) 0 funded = Inr paid
   \<and> 0 < maintenanceCounter funded
   \<and> MaintenanceRequest.status (maintenanceRequests funded 0) = Approved
   \<and> MaintenanceRequest.status (maintenanceRequests paid 0) = MaintenanceStatus.Completed
   \<and> maintenanceFunds funded 0 = 150 \<and> maintenanceFunds paid 0 = 0
   \<and> payMaintenanceContractor (env_of 3 300) 0
        (run [(env_of 5 200, ApproveMaintenance 0 100 6),
              (env_of 3 200, RequestMaintenance 0 ''Again'' 10)] paid)
       = Inl (Revert ''Not approved'')"
proof -
  have 1: "payMaintenanceContractor (env_of 3 100) 0 funded = Inr paid"
    by (simp add: op_defs scenario_defs requested_def approved_def funded_def paid_def)
  have 2: "0 < maintenanceCounter funded"
    by (simp add: op_defs scenario_defs requested_def approved_def funded_def paid_def)
  have 3: "maintenanceFunds funded 0 = 150 \<and> maintenanceFunds paid 0 = 0"
    by (simp add: op_defs scenario_defs requested_def approved_def funded_def paid_def)
  from payMaintenanceContractor_once [OF 1] 2
  have 4: "MaintenanceRequest.status (maintenanceRequests funded 0) = Approved
     \<and> MaintenanceRequest.status (maintenanceRequests paid 0) = MaintenanceStatus.Completed
     \<and> payMaintenanceContractor (env_of 3 300) 0
        (run [(env_of 5 200, ApproveMaintenance 0 100 6),
              (env_of 3 200, RequestMaintenance 0 ''Again'' 10)] paid)
       = Inl (Revert ''Not approved'')"
    by blast
  from 1 2 3 4 show ?thesis by blast
qed

text \<open>
  Without the restriction to allocated ids the claim fails. No operation checks that a
  request id exists: an agent approves id 0 before any request was made, the payout
  completes it, and the first \<^verbatim>\<open>requestMaintenance\<close> then allocates id 0 and overwrites
  the Completed record with a Pending one, which is approved and paid a second time.
\<close>

theorem payMaintenanceContractor_once_counterexample:
  "maintenanceCounter phantom_paid = 0
   \<and> MaintenanceRequest.status (maintenanceRequests phantom_paid 0) = MaintenanceStatus.Completed
   \<and> balanceOf (USDC phantom_paid) 6 = 150
   \<and> MaintenanceRequest.status
        (maintenanceRequests
           (step (env_of 3 100) (RequestMaintenance 0 ''Fix leak'' 150) phantom_paid) 0)
       = Pending
   \<and> balanceOf (USDC (run [(env_of 3 100, RequestMaintenance 0 ''Fix leak'' 150),
                            (env_of 5 100, ApproveMaintenance 0 150 6),
                            (env_of 5 100, PayMaintenanceContractor 0)] phantom_paid)) 6 = 300"
  by (simp add: op_defs scenario_defs phantom_paid_def)

section \<open>Security deposit settlement\<close>

lemma held_zero_exec:
  assumes "exec e c s = Inr s'" and "l < leaseCounter s"
    and "securityDepositHeld (leases s l) = 0"
  shows "securityDepositHeld (leases s' l) = 0"
  using assms
  by (cases c)
    (auto simp: map_sum_def split: sum.splits
      dest!: registerProperty_InrD deactivateProperty_InrD createLease_InrD payRent_InrD
        checkRentOverdue_InrD requestMaintenance_InrD approveMaintenance_InrD
        fundMaintenance_InrD payMaintenanceContractor_InrD returnSecurityDeposit_InrD
        admin_InrD)

lemma held_zero_step:
  assumes "l < leaseCounter s" and "securityDepositHeld (leases s l) = 0"
  shows "l < leaseCounter (step e c s) \<and> securityDepositHeld (leases (step e c s) l) = 0"
proof (cases "exec e c s")
  case (Inl err)
  with assms show ?thesis by (simp add: step_def)
next
  case (Inr s')
  with assms held_zero_exec [OF Inr assms] exec_frame [OF Inr] show ?thesis
    by (simp add: step_def)
qed

lemma held_zero_run:
  "l < leaseCounter s \<Longrightarrow> securityDepositHeld (leases s l) = 0
   \<Longrightarrow> l < leaseCounter (run cs s) \<and> securityDepositHeld (leases (run cs s) l) = 0"
proof (induction cs arbitrary: s)
  case Nil
  then show ?case by simp
next
  case (Cons x cs)
  obtain e c where "x = (e, c)" by (cases x)
  with Cons.IH [OF conjunct1 [OF held_zero_step] conjunct2 [OF held_zero_step],
      OF Cons.prems Cons.prems]
  show ?case by simp
qed

text \<open>
  Claim C4 (amended). \<^verbatim>\<open>returnSecurityDeposit\<close> settles the deposit in one shot. For every
  successful call the deduction is at most the deposit held, the contract pays the
  deposit minus the deduction to the tenant and the deduction to the property owner (two
  amounts that add up to the deposit held before the call exactly), and the lease is left
  Completed with no deposit held. Once the deposit held is 0, every call of
  \<^verbatim>\<open>returnSecurityDeposit\<close> on that lease moves no funds and leaves it at 0; a call with a
  positive deduction reverts. For a lease that was allocated by \<^verbatim>\<open>createLease\<close> the
  deposit held then stays 0 over every sequence of calls.
\<close>

theorem returnSecurityDeposit_one_shot:
  "(\<forall>s'. returnSecurityDeposit e l d s = Inr s' \<longrightarrow>
        d \<le> securityDepositHeld (leases s l)
      \<and> (securityDepositHeld (leases s l) - d) + d = securityDepositHeld (leases s l)
      \<and> balanceOf (USDC s') =
          move (thisAddress s) (owner (properties s (Lease.propertyId (leases s l)))) d
            (move (thisAddress s) (tenant (leases s l)) (securityDepositHeld (leases s l) - d)
               (balanceOf (USDC s)))
      \<and> securityDepositHeld (leases s' l) = 0
      \<and> Lease.status (leases s' l) = LeaseStatus.Completed)
   \<and> (securityDepositHeld (leases s l) = 0 \<longrightarrow>
        USDC (step e (ReturnSecurityDeposit l d) s) = USDC s
      \<and> securityDepositHeld (leases (step e (ReturnSecurityDeposit l d) s) l) = 0
      \<and> (0 < d \<longrightarrow> isl (returnSecurityDeposit e l d s)))
   \<and> (securityDepositHeld (leases s l) = 0 \<and> l < leaseCounter s \<longrightarrow>
        (\<forall>cs. securityDepositHeld (leases (run cs s) l) = 0))"
proof -
  have 1: "d \<le> securityDepositHeld (leases s l)
      \<and> (securityDepositHeld (leases s l) - d) + d = securityDepositHeld (leases s l)
      \<and> balanceOf (USDC s') =
          move (thisAddress s) (owner (properties s (Lease.propertyId (leases s l)))) d
            (move (thisAddress s) (tenant (leases s l)) (securityDepositHeld (leases s l) - d)
               (balanceOf (USDC s)))
      \<and> securityDepositHeld (leases s' l) = 0
      \<and> Lease.status (leases s' l) = LeaseStatus.Completed"
    if "returnSecurityDeposit e l d s = Inr s'" for s'
    using returnSecurityDeposit_InrD [OF that] by auto
  have 2: "USDC (step e (ReturnSecurityDeposit l d) s) = USDC s
      \<and> securityDepositHeld (leases (step e (ReturnSecurityDeposit l d) s) l) = 0
      \<and> (0 < d \<longrightarrow> isl (returnSecurityDeposit e l d s))"
    if zero: "securityDepositHeld (leases s l) = 0"
  proof (cases "returnSecurityDeposit e l d s")
    case (Inl err)
    with zero show ?thesis by (simp add: step_def)
  next
    case (Inr s')
    from returnSecurityDeposit_InrD [OF Inr] zero Inr show ?thesis
      by (auto simp: step_def move_zero)
  qed
  have 3: "securityDepositHeld (leases (run cs s) l) = 0"
    if "securityDepositHeld (leases s l) = 0" and "l < leaseCounter s" for cs
    using held_zero_run [OF that(2) that(1)] by simp
  from 1 2 3 show ?thesis by blast
qed

text \<open>
  After the lease's end the owner settles the deposit of 2500 with a deduction of 500:
  2000 go to the tenant, 500 to the owner. A second settlement with deduction 1 is
  refused and moves nothing.
\<close>

theorem returnSecurityDeposit_one_shot_witness:
  "returnSecurityDeposit (env_of 3 2592101) 0 500 leased = Inr settled
   \<and> securityDepositHeld (leases leased 0) = 2500
   \<and> balanceOf (USDC settled) 4 = balanceOf (USDC leased) 4 + 2000
   \<and> balanceOf (USDC settled) 3 = balanceOf (USDC leased) 3 + 500
   \<and> balanceOf (USDC settled) 2 + 2500 = balanceOf (USDC leased) 2
   \<and> securityDepositHeld (leases settled 0) = 0
   \<and> 0 < leaseCounter settled
   \<and> isl (returnSecurityDeposit (env_of 3 2592200) 0 1 settled)
   \<and> USDC (step (env_of 3 2592200) (ReturnSecurityDeposit 0 1) settled) = USDC settled
   \<and> securityDepositHeld (leases (run [(env_of 4 2592300, PayRent 0)] settled) 0) = 0"
proof -
  have 1: "returnSecurityDeposit (env_of 3 2592101) 0 500 leased = Inr settled"
    by (simp add: op_defs scenario_defs leased_def settled_def)
  have 2: "securityDepositHeld (leases leased 0) = 2500
     \<and> securityDepositHeld (leases settled 0) = 0 \<and> 0 < leaseCounter settled
     \<and> thisAddress leased = 2 \<and> tenant (leases leased 0) = 4
     \<and> owner (properties leased (Lease.propertyId (leases leased 0))) = 3"
    by (simp add: op_defs scenario_defs leased_def settled_def)
  from returnSecurityDeposit_one_shot [of "env_of 3 2592101" 0 500 leased] 1 2
  have 3: "balanceOf (USDC settled) = move 2 3 500 (move 2 4 2000 (balanceOf (USDC leased)))"
    by simp
  have 4: "balanceOf (USDC leased) 2 = 2500"
    by (simp add: op_defs scenario_defs leased_def settled_def)
  from 3 4 have 5: "balanceOf (USDC settled) 4 = balanceOf (USDC leased) 4 + 2000
     \<and> balanceOf (USDC settled) 3 = balanceOf (USDC leased) 3 + 500
     \<and> balanceOf (USDC settled) 2 + 2500 = balanceOf (USDC leased) 2"
    by (simp add: move_def)
  from returnSecurityDeposit_one_shot [of "env_of 3 2592200" 0 1 settled] 2
  have 6: "isl (returnSecurityDeposit (env_of 3 2592200) 0 1 settled)
     \<and> USDC (step (env_of 3 2592200) (ReturnSecurityDeposit 0 1) settled) = USDC settled
     \<and> securityDepositHeld (leases (run [(env_of 4 2592300, PayRent 0)] settled) 0) = 0"
    by (simp del: run.simps)
  from 1 2 5 6 show ?thesis by blast
qed

text \<open>
  As stated, the claim fails: nothing refuses a second call once the deposit held is 0.
  With deduction 0 the second call succeeds; it moves no funds, but it is not a failure,
  and it emits \<^verbatim>\<open>SecurityDepositReturned\<close> once more.
\<close>

theorem returnSecurityDeposit_one_shot_counterexample:
  "securityDepositHeld (leases settled 0) = 0
   \<and> returnSecurityDeposit (env_of 3 2592200) 0 0 settled
       = Inr (settled\<lparr>logs := logs settled @ [SecurityDepositReturned 0 4 0]\<rparr>)"
  by (simp add: op_defs scenario_defs leased_def settled_def)

section \<open>Lease creation\<close>

lemma token_transferFrom_None_iff:
  "token_transferFrom sp f t a tk = None \<longleftrightarrow> allowance tk f sp < a \<or> balanceOf tk f < a"
  by (simp add: token_transferFrom_def)

lemma move_to_other: "f \<noteq> t \<Longrightarrow> move f t a b t = b t + a"
  by (simp add: move_def)

lemma reachable_registered_quiet: "reachable registered_quiet"
  unfolding registered_quiet_def
  by (rule reachable_run [OF reachable_init])
    (simp_all add: ledger0_def constructor_def env_of_def)

text \<open>
  Claim C5. \<^verbatim>\<open>createLease\<close> is all-or-nothing around the deposit pull. In every
  reachable state, a successful call raises the contract's token balance by exactly the
  property's security deposit, takes the next lease id and stores the lease as Active
  with \<open>totalPaid = 0\<close>, \<open>lastPaymentDate = 0\<close> and the deposit as \<open>securityDepositHeld\<close>.
  If the pull of the deposit from the tenant fails, the call reverts and the state is
  unchanged, so no lease record is written and no id is used. When the checks before the
  pull pass, the call aborts with the failure of the funds transfer: the ledger's own
  error when the ledger throws, the reason \<^verbatim>\<open>Security deposit transfer failed\<close> of the
  \<^verbatim>\<open>require\<close> around the pull when the ledger returns \<^verbatim>\<open>false\<close>.
\<close>

theorem createLease_all_or_nothing:
  assumes "reachable s"
  shows "(\<forall>i s'. createLease e p t sd dm rd s = Inr (i, s') \<longrightarrow>
        balanceOf (USDC s') (thisAddress s')
          = balanceOf (USDC s) (thisAddress s) + securityDeposit (properties s p)
      \<and> i = leaseCounter s \<and> leaseCounter s' = leaseCounter s + 1
      \<and> leases s' i =
          \<lparr>Lease.propertyId = p, tenant = t, startDate = sd, endDate = sd + dm * (30 * days),
           rentDueDay = rd, lastPaymentDate = 0, totalPaid = 0, Lease.status = Active,
           securityDepositHeld = securityDeposit (properties s p)\<rparr>)
   \<and> (token_transferFrom (thisAddress s) t (thisAddress s)
         (securityDeposit (properties s p)) (USDC s) = None \<longrightarrow>
        isl (createLease e p t sd dm rd s)
      \<and> step e (CreateLease p t sd dm rd) s = s
      \<and> (owner (properties s p) = sender e \<and> isActive (properties s p) \<and> t \<noteq> 0
           \<and> timestamp e \<le> sd \<and> 0 < dm \<and> dm \<le> 36 \<and> 1 \<le> rd \<and> rd \<le> 28
           \<and> leaseCounter s < uint256_max
         \<longrightarrow> createLease e p t sd dm rd s =
               Inl (if throwsOnFailure (USDC s) then LedgerError
                    else Revert ''Security deposit transfer failed'')))"
proof -
  have inv: "invariant s" using assms by (rule reachable_invariant)
  have 1: "balanceOf (USDC s') (thisAddress s')
          = balanceOf (USDC s) (thisAddress s) + securityDeposit (properties s p)
      \<and> i = leaseCounter s \<and> leaseCounter s' = leaseCounter s + 1
      \<and> leases s' i =
          \<lparr>Lease.propertyId = p, tenant = t, startDate = sd, endDate = sd + dm * (30 * days),
           rentDueDay = rd, lastPaymentDate = 0, totalPaid = 0, Lease.status = Active,
           securityDepositHeld = securityDeposit (properties s p)\<rparr>"
    if ok: "createLease e p t sd dm rd s = Inr (i, s')" for i s'
    using createLease_InrD [OF ok] createLease_tenant_not_this [OF inv ok]
    by (auto simp: move_to_other)
  have 2: "isl (createLease e p t sd dm rd s)"
    if "token_transferFrom (thisAddress s) t (thisAddress s)
         (securityDeposit (properties s p)) (USDC s) = None"
  proof (cases "createLease e p t sd dm rd s")
    case (Inl err)
    then show ?thesis by simp
  next
    case (Inr x)
    obtain i s' where "x = (i, s')" by (cases x)
    with Inr createLease_InrD [of e p t sd dm rd s i s'] that show ?thesis
      by (auto simp: token_transferFrom_None_iff)
  qed
  have 3: "step e (CreateLease p t sd dm rd) s = s"
    if "token_transferFrom (thisAddress s) t (thisAddress s)
         (securityDeposit (properties s p)) (USDC s) = None"
    using 2 [OF that] by (cases "createLease e p t sd dm rd s") (auto simp: step_def)
  have 4: "createLease e p t sd dm rd s =
        Inl (if throwsOnFailure (USDC s) then LedgerError
             else Revert ''Security deposit transfer failed'')"
    if "token_transferFrom (thisAddress s) t (thisAddress s)
         (securityDeposit (properties s p)) (USDC s) = None"
      and "owner (properties s p) = sender e \<and> isActive (properties s p) \<and> t \<noteq> 0
           \<and> timestamp e \<le> sd \<and> 0 < dm \<and> dm \<le> 36 \<and> 1 \<le> rd \<and> rd \<le> 28
           \<and> leaseCounter s < uint256_max"
    using that by (simp add: createLease_def ledger_failed_def Let_def)
  from 1 2 3 4 show ?thesis by blast
qed

text \<open>
  The owner creates the lease for tenant 4, whose 2500 move to the contract. For
  account 7, which holds no tokens, the pull fails and nothing changes: on the ledger of
  the test suite, which throws, the call aborts with the ledger's error; on a ledger that
  returns \<^verbatim>\<open>false\<close>, with the reason of the \<^verbatim>\<open>require\<close>.
\<close>

theorem createLease_all_or_nothing_witness:
  "reachable registered
   \<and> createLease (env_of 3 100) 0 4 100 1 1 registered = Inr (0, leased)
   \<and> securityDeposit (properties registered 0) = 2500
   \<and> balanceOf (USDC leased) (thisAddress leased)
       = balanceOf (USDC registered) (thisAddress registered) + 2500
   \<and> Lease.status (leases leased 0) = Active \<and> totalPaid (leases leased 0) = 0
   \<and> lastPaymentDate (leases leased 0) = 0 \<and> securityDepositHeld (leases leased 0) = 2500
   \<and> token_transferFrom (thisAddress registered) 7 (thisAddress registered) 2500
        (USDC registered) = None
   \<and> throwsOnFailure (USDC registered)
   \<and> createLease (env_of 3 100) 0 7 100 1 1 registered = Inl LedgerError
   \<and> step (env_of 3 100) (CreateLease 0 7 100 1 1) registered = registered
   \<and> reachable registered_quiet
   \<and> token_transferFrom (thisAddress registered_quiet) 7 (thisAddress registered_quiet) 2500
        (USDC registered_quiet) = None
   \<and> \<not> throwsOnFailure (USDC registered_quiet)
   \<and> createLease (env_of 3 100) 0 7 100 1 1 registered_quiet
       = Inl (Revert ''Security deposit transfer failed'')
   \<and> step (env_of 3 100) (CreateLease 0 7 100 1 1) registered_quiet = registered_quiet"
proof -
  have 1: "createLease (env_of 3 100) 0 4 100 1 1 registered = Inr (0, leased)"
    by (simp add: op_defs scenario_defs leased_def)
  have 2: "securityDeposit (properties registered 0) = 2500"
    by (simp add: op_defs scenario_defs)
  have 3: "token_transferFrom (thisAddress registered) 7 (thisAddress registered) 2500
        (USDC registered) = None"
    by (simp add: op_defs scenario_defs)
  have 4: "owner (properties registered 0) = sender (env_of 3 100)
     \<and> isActive (properties registered 0) \<and> timestamp (env_of 3 100) \<le> 100
     \<and> leaseCounter registered < uint256_max"
    by (simp add: op_defs scenario_defs)
  have 5: "throwsOnFailure (USDC registered)"
    by (simp add: op_defs scenario_defs)
  from createLease_all_or_nothing [OF reachable_registered, of "env_of 3 100" 0 4 100 1 1] 1 2
  have 6: "balanceOf (USDC leased) (thisAddress leased)
       = balanceOf (USDC registered) (thisAddress registered) + 2500
   \<and> Lease.status (leases leased 0) = Active \<and> totalPaid (leases leased 0) = 0
   \<and> lastPaymentDate (leases leased 0) = 0 \<and> securityDepositHeld (leases leased 0) = 2500"
    by simp
  from createLease_all_or_nothing [OF reachable_registered, of "env_of 3 100" 0 7 100 1 1]
    2 3 4 5
  have 7: "createLease (env_of 3 100) 0 7 100 1 1 registered = Inl LedgerError
   \<and> step (env_of 3 100) (CreateLease 0 7 100 1 1) registered = registered"
    by simp
  have 8: "securityDeposit (properties registered_quiet 0) = 2500"
    by (simp add: op_defs scenario_defs registered_quiet_def)
  have 9: "token_transferFrom (thisAddress registered_quiet) 7 (thisAddress registered_quiet)
        2500 (USDC registered_quiet) = None"
    by (simp add: op_defs scenario_defs registered_quiet_def)
  have 10: "owner (properties registered_quiet 0) = sender (env_of 3 100)
     \<and> isActive (properties registered_quiet 0) \<and> timestamp (env_of 3 100) \<le> 100
     \<and> leaseCounter registered_quiet < uint256_max"
    by (simp add: op_defs scenario_defs registered_quiet_def)
  have 11: "\<not> throwsOnFailure (USDC registered_quiet)"
    by (simp add: op_defs scenario_defs registered_quiet_def)
  from createLease_all_or_nothing [OF reachable_registered_quiet,
      of "env_of 3 100" 0 7 100 1 1] 8 9 10 11
  have 12: "createLease (env_of 3 100) 0 7 100 1 1 registered_quiet
       = Inl (Revert ''Security deposit transfer failed'')
   \<and> step (env_of 3 100) (CreateLease 0 7 100 1 1) registered_quiet = registered_quiet"
    by simp
  from reachable_registered reachable_registered_quiet 1 2 3 5 6 7 9 11 12
  show ?thesis by blast
qed

section \<open>Rent payments\<close>

lemma move_elsewhere: "x \<noteq> f \<Longrightarrow> x \<noteq> t \<Longrightarrow> move f t a b x = b x"
  by (simp add: move_def)

lemma payRent_effect:
  assumes inv: "invariant s" and ok: "payRent e l s = Inr s'"
  shows "invariant s' \<and> properties s' = properties s
     \<and> Lease.propertyId (leases s' l) = Lease.propertyId (leases s l)
     \<and> tenant (leases s' l) = tenant (leases s l)
     \<and> totalPaid (leases s' l)
         = totalPaid (leases s l) + monthlyRent (properties s (Lease.propertyId (leases s l)))
     \<and> maintenanceFunds s' = maintenanceFunds s
     \<and> thisAddress s' = thisAddress s
     \<and> balanceOf (USDC s') (thisAddress s) = balanceOf (USDC s) (thisAddress s)
     \<and> (owner (properties s (Lease.propertyId (leases s l))) \<noteq> tenant (leases s l) \<longrightarrow>
          balanceOf (USDC s') (owner (properties s (Lease.propertyId (leases s l))))
          = balanceOf (USDC s) (owner (properties s (Lease.propertyId (leases s l))))
            + monthlyRent (properties s (Lease.propertyId (leases s l))))"
proof -
  from inv have "thisAddress s \<noteq> tenant (leases s l)"
    and "thisAddress s \<noteq> owner (properties s (Lease.propertyId (leases s l)))"
    by (auto simp: invariant_def dest: sym)
  with payRent_InrD [OF ok] inv_payRent [OF inv ok] show ?thesis
    by (auto simp: move_elsewhere move_to_other)
qed

lemma payRent_run:
  assumes "invariant s"
  shows "totalPaid (leases (run (map (\<lambda>e. (e, PayRent l)) es) s) l)
       = totalPaid (leases s l)
         + successes (map (\<lambda>e. (e, PayRent l)) es) s
           * monthlyRent (properties s (Lease.propertyId (leases s l)))
     \<and> maintenanceFunds (run (map (\<lambda>e. (e, PayRent l)) es) s) = maintenanceFunds s
     \<and> thisAddress (run (map (\<lambda>e. (e, PayRent l)) es) s) = thisAddress s
     \<and> balanceOf (USDC (run (map (\<lambda>e. (e, PayRent l)) es) s)) (thisAddress s)
         = balanceOf (USDC s) (thisAddress s)
     \<and> (owner (properties s (Lease.propertyId (leases s l))) \<noteq> tenant (leases s l) \<longrightarrow>
          balanceOf (USDC (run (map (\<lambda>e. (e, PayRent l)) es) s))
            (owner (properties s (Lease.propertyId (leases s l))))
          = balanceOf (USDC s) (owner (properties s (Lease.propertyId (leases s l))))
            + successes (map (\<lambda>e. (e, PayRent l)) es) s
              * monthlyRent (properties s (Lease.propertyId (leases s l))))"
  using assms
proof (induction es arbitrary: s)
  case Nil
  then show ?case by simp
next
  case (Cons e es)
  show ?case
  proof (cases "payRent e l s")
    case (Inl err)
    with Cons.IH [OF Cons.prems] show ?thesis
      by (simp add: step_def)
  next
    case (Inr s1)
    note E = payRent_effect [OF Cons.prems Inr]
    from E have "invariant s1" by simp
    from Cons.IH [OF this] E Inr show ?thesis
      by (simp add: step_def)
  qed
qed

text \<open>
  Claim C6 (amended). Take any sequence of \<^verbatim>\<open>payRent\<close> calls on one lease, by any callers
  at any times, starting in a reachable state, and let \<open>n\<close> be the number of calls that
  succeed. After the sequence the lease's \<open>totalPaid\<close> has grown by \<open>n\<close> times the
  property's monthly rent; the contract's own token balance and every escrow balance are
  as before; and, when the tenant is not the property's owner, the owner's token balance
  has grown by the same \<open>n\<close> times the monthly rent.
\<close>

theorem payRent_sequence:
  assumes "reachable s"
  shows "let cs = map (\<lambda>e. (e, PayRent l)) es;
             n = successes cs s;
             s' = run cs s;
             lease = leases s l;
             prop = properties s (Lease.propertyId lease)
         in totalPaid (leases s' l) = totalPaid lease + n * monthlyRent prop
          \<and> (owner prop \<noteq> tenant lease \<longrightarrow>
               balanceOf (USDC s') (owner prop)
               = balanceOf (USDC s) (owner prop) + n * monthlyRent prop)
          \<and> balanceOf (USDC s') (thisAddress s') = balanceOf (USDC s) (thisAddress s)
          \<and> maintenanceFunds s' = maintenanceFunds s"
  using payRent_run [OF reachable_invariant [OF assms], of l es]
  by (simp add: Let_def)

text \<open>The tenant pays twice, with a refused attempt by account 7 in between: 5000 reach
  the owner, the contract's balance and the escrow do not move.\<close>

theorem payRent_sequence_witness:
  "reachable leased
   \<and> successes (map (\<lambda>e. (e, PayRent 0)) [env_of 4 100, env_of 7 150, env_of 4 200]) leased = 2
   \<and> monthlyRent (properties leased (Lease.propertyId (leases leased 0))) = 2500
   \<and> totalPaid (leases (run (map (\<lambda>e. (e, PayRent 0))
        [env_of 4 100, env_of 7 150, env_of 4 200]) leased) 0) = 5000
   \<and> balanceOf (USDC (run (map (\<lambda>e. (e, PayRent 0))
        [env_of 4 100, env_of 7 150, env_of 4 200]) leased)) 3
       = balanceOf (USDC leased) 3 + 5000
   \<and> balanceOf (USDC (run (map (\<lambda>e. (e, PayRent 0))
        [env_of 4 100, env_of 7 150, env_of 4 200]) leased)) 2
       = balanceOf (USDC leased) 2
   \<and> maintenanceFunds (run (map (\<lambda>e. (e, PayRent 0))
        [env_of 4 100, env_of 7 150, env_of 4 200]) leased) = maintenanceFunds leased"
proof -
  have n: "successes (map (\<lambda>e. (e, PayRent 0)) [env_of 4 100, env_of 7 150, env_of 4 200])
      leased = 2"
    by (simp add: op_defs scenario_defs leased_def)
  have f: "Lease.propertyId (leases leased 0) = 0" "monthlyRent (properties leased 0) = 2500"
    "owner (properties leased 0) = 3" "tenant (leases leased 0) = 4"
    "totalPaid (leases leased 0) = 0" "thisAddress leased = 2"
    by (simp_all add: op_defs scenario_defs leased_def)
  note T = payRent_sequence [OF reachable_leased, of 0 "[env_of 4 100, env_of 7 150, env_of 4 200]",
      unfolded Let_def n f run_thisAddress]
  from T n f reachable_leased show ?thesis by simp
qed

text \<open>
  As stated, the claim fails when the owner is the tenant of the own property, which
  \<^verbatim>\<open>createLease\<close> allows: the rent moves from the owner to the owner, \<open>totalPaid\<close> grows
  by 2500 and the owner's balance stays where it was.
\<close>

theorem payRent_sequence_counterexample:
  "Lease.status (leases self_leased 0) = Active
   \<and> owner (properties self_leased (Lease.propertyId (leases self_leased 0))) = 3
   \<and> monthlyRent (properties self_leased (Lease.propertyId (leases self_leased 0))) = 2500
   \<and> successes [(env_of 3 100, PayRent 0)] self_leased = 1
   \<and> totalPaid (leases self_leased 0) = 0
   \<and> totalPaid (leases (run [(env_of 3 100, PayRent 0)] self_leased) 0) = 2500
   \<and> balanceOf (USDC (run [(env_of 3 100, PayRent 0)] self_leased)) 3
       = balanceOf (USDC self_leased) 3"
  by (simp add: op_defs scenario_defs self_leased_def)

section \<open>The pause switch\<close>

text \<open>Only \<^verbatim>\<open>registerProperty\<close> and \<^verbatim>\<open>payRent\<close> carry \<^verbatim>\<open>whenNotPaused\<close>.\<close>

lemma whenNotPaused_guarded:
  "paused s \<Longrightarrow> registerProperty e r d s = Inl EnforcedPause"
  "paused s \<Longrightarrow> payRent e l s = Inl EnforcedPause"
  by (simp_all add: registerProperty_def payRent_def)

text \<open>
  Claim C7 says that while the pause switch is engaged every mutating entry point fails.
  The code does not do that: in the paused deployment below, \<^verbatim>\<open>createLease\<close> (which
  pulls the deposit of 2500 into the contract), \<^verbatim>\<open>requestMaintenance\<close>,
  \<^verbatim>\<open>approveMaintenance\<close>, \<^verbatim>\<open>fundMaintenance\<close>, \<^verbatim>\<open>payMaintenanceContractor\<close>,
  \<^verbatim>\<open>deactivateProperty\<close>, \<^verbatim>\<open>returnSecurityDeposit\<close> and \<^verbatim>\<open>setAIAgent\<close> are called one
  after the other; all eight succeed, and the contract is paused throughout.
\<close>

theorem paused_calls_succeed:
  "paused paused_registered
   \<and> successes
        [(env_of 3 100, CreateLease 0 4 100 1 1),
         (env_of 4 100, RequestMaintenance 0 ''Fix leak'' 150),
         (env_of 5 100, ApproveMaintenance 0 150 6),
         (env_of 3 100, FundMaintenance 0 150),
         (env_of 5 100, PayMaintenanceContractor 0),
         (env_of 3 100, DeactivateProperty 0),
         (env_of 5 2592101, ReturnSecurityDeposit 0 500),
         (env_of 1 2592101, SetAIAgent 5 False)] paused_registered = 8
   \<and> paused (run
        [(env_of 3 100, CreateLease 0 4 100 1 1),
         (env_of 4 100, RequestMaintenance 0 ''Fix leak'' 150),
         (env_of 5 100, ApproveMaintenance 0 150 6),
         (env_of 3 100, FundMaintenance 0 150),
         (env_of 5 100, PayMaintenanceContractor 0),
         (env_of 3 100, DeactivateProperty 0),
         (env_of 5 2592101, ReturnSecurityDeposit 0 500),
         (env_of 1 2592101, SetAIAgent 5 False)] paused_registered)
   \<and> balanceOf (USDC (run [(env_of 3 100, CreateLease 0 4 100 1 1)] paused_registered)) 2
       = balanceOf (USDC paused_registered) 2 + 2500"
  by (simp add: op_defs scenario_defs paused_registered_def)

section \<open>Identifiers that were never allocated\<close>

text \<open>
  Claim C8 (amended). In every reachable state, for a caller other than the zero
  address: the operations that take a property id (\<^verbatim>\<open>deactivateProperty\<close>,
  \<^verbatim>\<open>createLease\<close>, \<^verbatim>\<open>fundMaintenance\<close>, \<^verbatim>\<open>requestMaintenance\<close>) revert for an id at or above
  \<^verbatim>\<open>propertyCounter\<close>, with \<^verbatim>\<open>Not property owner\<close> or \<^verbatim>\<open>Property not active\<close>, and
  \<^verbatim>\<open>payRent\<close> reverts for a lease id at or above \<^verbatim>\<open>leaseCounter\<close>; the state is unchanged.
  Nothing is said about the operations that the counterexample below shows acting on a
  default-valued record.
\<close>

theorem unallocated_ids:
  assumes "reachable s" and "sender e \<noteq> 0"
  shows "(propertyCounter s \<le> p \<longrightarrow>
        deactivateProperty e p s = Inl (Revert ''Not property owner'')
      \<and> createLease e p t sd dm rd s = Inl (Revert ''Not property owner'')
      \<and> fundMaintenance e p a s = Inl (Revert ''Not property owner'')
      \<and> requestMaintenance e p d c s = Inl (Revert ''Property not active'')
      \<and> step e (DeactivateProperty p) s = s
      \<and> step e (CreateLease p t sd dm rd) s = s
      \<and> step e (FundMaintenance p a) s = s
      \<and> step e (RequestMaintenance p d c) s = s)
   \<and> (leaseCounter s \<le> l \<longrightarrow> isl (payRent e l s) \<and> step e (PayRent l) s = s)"
proof -
  have inv: "invariant s" using assms(1) by (rule reachable_invariant)
  have P: "owner (properties s p) = 0 \<and> \<not> isActive (properties s p)" if "propertyCounter s \<le> p"
    using inv that by (auto simp: invariant_def default_Property_def)
  have 1: "deactivateProperty e p s = Inl (Revert ''Not property owner'')
      \<and> createLease e p t sd dm rd s = Inl (Revert ''Not property owner'')
      \<and> fundMaintenance e p a s = Inl (Revert ''Not property owner'')
      \<and> requestMaintenance e p d c s = Inl (Revert ''Property not active'')"
    if "propertyCounter s \<le> p"
    using P [OF that] assms(2)
    by (auto simp: deactivateProperty_def createLease_def fundMaintenance_def
        requestMaintenance_def)
  have 2: "step e (DeactivateProperty p) s = s
      \<and> step e (CreateLease p t sd dm rd) s = s
      \<and> step e (FundMaintenance p a) s = s
      \<and> step e (RequestMaintenance p d c) s = s"
    if "propertyCounter s \<le> p"
    using 1 [OF that] by (simp add: step_def)
  have 3: "isl (payRent e l s)" if "leaseCounter s \<le> l"
  proof (cases "payRent e l s")
    case (Inl err)
    then show ?thesis by simp
  next
    case (Inr s')
    from inv that have "tenant (leases s l) = 0" by (auto simp: invariant_def)
    with payRent_InrD [OF Inr] assms(2) show ?thesis by simp
  qed
  have 4: "step e (PayRent l) s = s" if "leaseCounter s \<le> l"
    using 3 [OF that] by (cases "payRent e l s") (auto simp: step_def)
  from 1 2 3 4 show ?thesis by blast
qed

text \<open>With one property registered and no lease, property id 5 and lease id 7 are
  unknown.\<close>

theorem unallocated_ids_witness:
  "reachable registered \<and> sender (env_of 3 100) \<noteq> 0
   \<and> propertyCounter registered \<le> 5 \<and> leaseCounter registered \<le> 7
   \<and> deactivateProperty (env_of 3 100) 5 registered = Inl (Revert ''Not property owner'')
   \<and> createLease (env_of 3 100) 5 4 100 1 1 registered = Inl (Revert ''Not property owner'')
   \<and> fundMaintenance (env_of 3 100) 5 150 registered = Inl (Revert ''Not property owner'')
   \<and> requestMaintenance (env_of 3 100) 5 ''Fix leak'' 150 registered
       = Inl (Revert ''Property not active'')
   \<and> isl (payRent (env_of 3 100) 7 registered)
   \<and> step (env_of 3 100) (PayRent 7) registered = registered"
proof -
  have 1: "sender (env_of 3 100) \<noteq> 0" "propertyCounter registered \<le> 5"
    "leaseCounter registered \<le> 7"
    by (simp_all add: op_defs scenario_defs)
  from unallocated_ids [OF reachable_registered 1(1), of 5 4 100 1 1 150 "''Fix leak''" 150 7]
    1 reachable_registered
  show ?thesis by simp
qed

text \<open>
  As stated, the claim fails: no operation checks an id against its counter. With no
  lease and no request allocated, the agent's \<^verbatim>\<open>checkRentOverdue\<close> on lease id 7 succeeds
  and signals the default record (Active, never paid, start date 0) as ten days overdue;
  the agent's \<^verbatim>\<open>returnSecurityDeposit\<close> on lease id 7 succeeds and marks it Completed;
  the agent's \<^verbatim>\<open>approveMaintenance\<close> on request id 9 succeeds and marks it Approved; and
  the payout of that request then takes 150 out of the escrow of property 0.
\<close>

theorem unallocated_ids_counterexample:
  "leaseCounter registered = 0 \<and> maintenanceCounter registered = 0
   \<and> checkRentOverdue (env_of 5 864100) 7 registered
       = Inr (registered\<lparr>logs := logs registered @ [RentOverdue 7 10]\<rparr>)
   \<and> Lease.status (leases registered 7) = Active
   \<and> \<not> isl (returnSecurityDeposit (env_of 5 100) 7 0 registered)
   \<and> Lease.status (leases (step (env_of 5 100) (ReturnSecurityDeposit 7 0) registered) 7)
       = LeaseStatus.Completed
   \<and> MaintenanceRequest.status (maintenanceRequests registered 9) = Pending
   \<and> MaintenanceRequest.status
        (maintenanceRequests (step (env_of 5 100) (ApproveMaintenance 9 150 6) registered) 9)
       = Approved
   \<and> maintenanceFunds
        (run [(env_of 3 100, FundMaintenance 0 1000), (env_of 5 100, ApproveMaintenance 9 150 6),
              (env_of 5 100, PayMaintenanceContractor 9)] registered) 0 = 850"
  by (simp add: op_defs scenario_defs)

section \<open>Rent on a deactivated property\<close>

text \<open>
  Claim C10 (amended). \<^verbatim>\<open>payRent\<close> does not look at the property's \<^verbatim>\<open>isActive\<close> flag:
  setting the flag of any property to any value changes neither whether \<^verbatim>\<open>payRent\<close>
  succeeds nor what it does (the resulting states differ in that flag only). For a lease
  with status Active whose term contains the current time, \<^verbatim>\<open>payRent\<close> by the tenant
  succeeds, whatever the flag, provided the contract is not paused, the token transfer
  succeeds and \<open>totalPaid\<close> plus the rent still fits a \<^verbatim>\<open>uint256\<close>.
\<close>

theorem payRent_ignores_isActive:
  "payRent e l (with_isActive p b s) = map_sum id (with_isActive p b) (payRent e l s)
   \<and> (\<not> paused s \<and> Lease.status (leases s l) = Active \<and> sender e = tenant (leases s l)
        \<and> startDate (leases s l) \<le> timestamp e \<and> timestamp e \<le> endDate (leases s l)
        \<and> token_transferFrom (thisAddress s) (sender e)
             (owner (properties s (Lease.propertyId (leases s l))))
             (monthlyRent (properties s (Lease.propertyId (leases s l)))) (USDC s) \<noteq> None
        \<and> totalPaid (leases s l) + monthlyRent (properties s (Lease.propertyId (leases s l)))
             \<le> uint256_max
      \<longrightarrow> \<not> isl (payRent e l s))"
proof -
  have 1: "payRent e l (with_isActive p b s) = map_sum id (with_isActive p b) (payRent e l s)"
    by (auto simp: payRent_def with_isActive_def Let_def split: option.splits)
  have 2: "\<not> isl (payRent e l s)"
    if "\<not> paused s \<and> Lease.status (leases s l) = Active \<and> sender e = tenant (leases s l)
        \<and> startDate (leases s l) \<le> timestamp e \<and> timestamp e \<le> endDate (leases s l)
        \<and> token_transferFrom (thisAddress s) (sender e)
             (owner (properties s (Lease.propertyId (leases s l))))
             (monthlyRent (properties s (Lease.propertyId (leases s l)))) (USDC s) \<noteq> None
        \<and> totalPaid (leases s l) + monthlyRent (properties s (Lease.propertyId (leases s l)))
             \<le> uint256_max"
    using that by (auto simp: payRent_def Let_def split: option.splits)
  from 1 2 show ?thesis by blast
qed

text \<open>The owner deactivates the leased property; the tenant's rent payment goes through
  as it would have before.\<close>

theorem payRent_ignores_isActive_witness:
  "deactivated_leased = with_isActive 0 False leased
   \<and> \<not> isActive (properties deactivated_leased (Lease.propertyId (leases deactivated_leased 0)))
   \<and> \<not> paused deactivated_leased
   \<and> Lease.status (leases deactivated_leased 0) = Active
   \<and> sender (env_of 4 100) = tenant (leases deactivated_leased 0)
   \<and> \<not> isl (payRent (env_of 4 100) 0 deactivated_leased)
   \<and> payRent (env_of 4 100) 0 deactivated_leased
       = map_sum id (with_isActive 0 False) (payRent (env_of 4 100) 0 leased)"
proof -
  have 1: "deactivated_leased = with_isActive 0 False leased"
    by (simp add: op_defs scenario_defs leased_def deactivated_leased_def with_isActive_def)
  have 2: "\<not> paused deactivated_leased
     \<and> Lease.status (leases deactivated_leased 0) = Active
     \<and> sender (env_of 4 100) = tenant (leases deactivated_leased 0)
     \<and> startDate (leases deactivated_leased 0) \<le> timestamp (env_of 4 100)
     \<and> timestamp (env_of 4 100) \<le> endDate (leases deactivated_leased 0)
     \<and> token_transferFrom (thisAddress deactivated_leased) (sender (env_of 4 100))
          (owner (properties deactivated_leased (Lease.propertyId (leases deactivated_leased 0))))
          (monthlyRent (properties deactivated_leased
             (Lease.propertyId (leases deactivated_leased 0))))
          (USDC deactivated_leased) \<noteq> None
     \<and> totalPaid (leases deactivated_leased 0)
          + monthlyRent (properties deactivated_leased
              (Lease.propertyId (leases deactivated_leased 0)))
          \<le> uint256_max"
    by (simp add: op_defs scenario_defs leased_def deactivated_leased_def)
  have 3: "\<not> isActive (properties deactivated_leased
      (Lease.propertyId (leases deactivated_leased 0)))"
    by (simp add: op_defs scenario_defs leased_def deactivated_leased_def)
  from payRent_ignores_isActive [of "env_of 4 100" 0 0 False deactivated_leased] 2
  have 4: "\<not> isl (payRent (env_of 4 100) 0 deactivated_leased)"
    by blast
  from payRent_ignores_isActive [of "env_of 4 100" 0 0 False leased]
  have 5: "payRent (env_of 4 100) 0 deactivated_leased
       = map_sum id (with_isActive 0 False) (payRent (env_of 4 100) 0 leased)"
    unfolding 1 by blast
  from 1 2 3 4 5 show ?thesis by blast
qed

text \<open>
  As stated, the claim fails: it leaves out the pause switch. With the contract paused,
  the tenant's payment on an Active lease within its term, with the token transfer
  ready to succeed, reverts with \<^verbatim>\<open>EnforcedPause\<close>.
\<close>

theorem payRent_ignores_isActive_counterexample:
  "Lease.status (leases paused_leased 0) = Active
   \<and> sender (env_of 4 100) = tenant (leases paused_leased 0)
   \<and> startDate (leases paused_leased 0) \<le> timestamp (env_of 4 100)
   \<and> timestamp (env_of 4 100) \<le> endDate (leases paused_leased 0)
   \<and> token_transferFrom (thisAddress paused_leased) (sender (env_of 4 100))
        (owner (properties paused_leased (Lease.propertyId (leases paused_leased 0))))
        (monthlyRent (properties paused_leased (Lease.propertyId (leases paused_leased 0))))
        (USDC paused_leased) \<noteq> None
   \<and> payRent (env_of 4 100) 0 paused_leased = Inl EnforcedPause"
  by (simp add: op_defs scenario_defs leased_def paused_leased_def)

end
